theory Spec2Isabelle
  imports Main "HOL-Library.Word"
begin

section \<open>The configuration loader of cmd/clair/config.go\<close>

text \<open>
  The development embeds \<^verbatim>\<open>DefaultConfig\<close> and \<^verbatim>\<open>LoadConfig\<close> of
  \<^verbatim>\<open>cmd/clair/config.go\<close>. Go strings are byte strings, here \<open>string\<close>. A
  duration is Go's \<^verbatim>\<open>time.Duration\<close>: a signed count of nanoseconds. The
  functions of viper, cast, strconv, time, encoding/base64 and fernet that
  \<^verbatim>\<open>LoadConfig\<close> calls are modelled after those libraries (viper, cast,
  and the standard library of a current Go release), each in its own
  subsection, with the parts left out named there.
\<close>

subsection \<open>Errors and outcomes\<close>

text \<open>
  Every error value that can arise during a load. \<open>ErrDatasourceNotLoaded\<close>
  is the sentinel declared on line 34; \<open>ErrInvalidPaginationKey\<close> is the error
  built on line 171. The others come from the libraries: viper's
  \<^verbatim>\<open>ReadInConfig\<close>, \<^verbatim>\<open>time.ParseDuration\<close> (which keeps the text it was
  given, and the unit it did not know), the random source behind
  \<^verbatim>\<open>Key.Generate\<close>, and \<^verbatim>\<open>fernet.DecodeKey\<close>.
\<close>

datatype error =
    ErrDatasourceNotLoaded
  | ErrInvalidPaginationKey
  | ErrConfigFileNotFound
  | ErrConfigFileUnreadable string
  | ErrInvalidDuration string
  | ErrMissingUnit string
  | ErrUnknownUnit string string
  | ErrRandomSource
  | ErrEmptyKey
  | ErrKeyEncoding
  | ErrKeyLen

text \<open>
  A Go call either returns its results or panics (a nil pointer dereference is
  a run-time panic).
\<close>

datatype 'a outcome = Return 'a | Panic

type_synonym duration = int

definition Nanosecond :: duration where "Nanosecond = 1"
definition Microsecond :: duration where "Microsecond = 1000 * Nanosecond"
definition Millisecond :: duration where "Millisecond = 1000 * Microsecond"
definition Second :: duration where "Second = 1000 * Millisecond"
definition Minute :: duration where "Minute = 60 * Second"
definition Hour :: duration where "Hour = 60 * Minute"

subsection \<open>The configuration structs\<close>

text \<open>
  \<^verbatim>\<open>database.RegistrableComponentConfig\<close>, \<^verbatim>\<open>clair.UpdaterConfig\<close>,
  \<^verbatim>\<open>notification.Config\<close> and \<^verbatim>\<open>api.Config\<close> are declared in other
  packages; the records hold the fields that config.go reads or writes. The
  option values that \<^verbatim>\<open>LoadConfig\<close> stores are all strings. A Go map that
  is nil reads as the empty map; \<^verbatim>\<open>LoadConfig\<close> allocates \<open>Options\<close> on
  line 93 before its first write to it.
\<close>

record RegistrableComponentConfig =
  Type :: string
  Options :: "string \<rightharpoonup> string"

record UpdaterConfig =
  Interval :: duration

record NotifierConfig =
  Attempts :: int
  RenotifyInterval :: duration
  Params :: "string \<rightharpoonup> string"

record APIConfig =
  Port :: int
  HealthPort :: int
  Timeout :: duration
  CAFile :: string
  KeyFile :: string
  CertFile :: string

record Config =
  Database :: RegistrableComponentConfig
  Updater :: UpdaterConfig
  Notifier :: NotifierConfig
  API :: APIConfig

definition DefaultConfig :: Config where
  "DefaultConfig =
     \<lparr> Database = \<lparr> Type = ''pgsql'', Options = Map.empty \<rparr>,
       Updater = \<lparr> Interval = 1 * Hour \<rparr>,
       Notifier = \<lparr> Attempts = 5, RenotifyInterval = 2 * Hour, Params = Map.empty \<rparr>,
       API = \<lparr> Port = 6060, HealthPort = 6061, Timeout = 900 * Second,
               CAFile = [], KeyFile = [], CertFile = [] \<rparr> \<rparr>"

subsection \<open>The resolver (viper)\<close>

text \<open>
  A \<^verbatim>\<open>viper.Viper\<close> holds the name and path of the configuration file, the
  values read from it, the environment prefix and whether every lookup also
  consults the environment.

  The values of the file are those that the YAML decoder hands to viper: a
  string, an integer, a boolean, a float, or an inner node (a mapping or a
  sequence). Of a float the development keeps the two things that cast makes
  of it: its text (\<^verbatim>\<open>strconv.FormatFloat(f, 'f', -1, 64)\<close>) and its
  truncation to an integer. Scalars of other kinds (a timestamp, binary data)
  are left out. The values are kept flat, by their dotted key path in lower
  case, an inner node under its own path; a key that is absent or null holds
  nothing.

  The file system is a function from a path to the values of the file there,
  \<open>None\<close> for a file that cannot be read or parsed. The environment is a
  function from the prefix and the key path to the value of the variable that
  viper derives from them (the prefix, an underscore and the key path, in upper
  case), the empty string when the variable is unset, as \<^verbatim>\<open>os.Getenv\<close>
  answers.
\<close>

datatype yaml = YString string | YInt int | YBool bool | YFloat string int | YNode

record Viper =
  configName :: string
  configFile :: string
  fileValues :: "string \<rightharpoonup> yaml"
  envPrefix :: string
  automaticEnvApplied :: bool

type_synonym filesystem = "string \<Rightarrow> (string \<rightharpoonup> yaml) option"
type_synonym environment = "string \<Rightarrow> string \<Rightarrow> string"

definition viper_New :: Viper where
  "viper_New = \<lparr> configName = ''config'', configFile = [], fileValues = Map.empty,
                  envPrefix = [], automaticEnvApplied = False \<rparr>"

definition SetConfigName :: "Viper \<Rightarrow> string \<Rightarrow> Viper" where
  "SetConfigName v n = (if n \<noteq> [] then v\<lparr> configName := n, configFile := [] \<rparr> else v)"

definition SetConfigFile :: "Viper \<Rightarrow> string \<Rightarrow> Viper" where
  "SetConfigFile v p = (if p \<noteq> [] then v\<lparr> configFile := p \<rparr> else v)"

text \<open>
  \<^verbatim>\<open>ReadInConfig\<close>: with no file path set, viper searches its configuration
  paths, of which \<^verbatim>\<open>LoadConfig\<close> adds none, and answers that no file was
  found. Otherwise the file is read and parsed; a failure leaves no values.
\<close>

definition ReadInConfig :: "Viper \<Rightarrow> filesystem \<Rightarrow> Viper \<times> error option" where
  "ReadInConfig v fs =
     (if configFile v = [] then (v, Some ErrConfigFileNotFound)
      else case fs (configFile v) of
             None \<Rightarrow> (v\<lparr> fileValues := Map.empty \<rparr>, Some (ErrConfigFileUnreadable (configFile v)))
           | Some kv \<Rightarrow> (v\<lparr> fileValues := kv \<rparr>, None))"

definition SetEnvPrefix :: "Viper \<Rightarrow> string \<Rightarrow> Viper" where
  "SetEnvPrefix v p = (if p \<noteq> [] then v\<lparr> envPrefix := p \<rparr> else v)"

definition AutomaticEnv :: "Viper \<Rightarrow> Viper" where
  "AutomaticEnv v = v\<lparr> automaticEnvApplied := True \<rparr>"

text \<open>
  The parents of a key path: what stands before each of its dots
  (\<^verbatim>\<open>clair\<close> and \<^verbatim>\<open>clair.database\<close> for \<^verbatim>\<open>clair.database.type\<close>).
\<close>

fun parentsFrom :: "string \<Rightarrow> string \<Rightarrow> string list" where
  "parentsFrom seen [] = []"
| "parentsFrom seen (c # s) =
     (if c = CHR ''.'' then seen # parentsFrom (seen @ [c]) s else parentsFrom (seen @ [c]) s)"

definition parentKeys :: "string \<Rightarrow> string list" where
  "parentKeys key = parentsFrom [] key"

text \<open>
  viper's lookup (\<^verbatim>\<open>find\<close>). The environment comes first: the variable of
  the key itself, where one that is empty counts as unset; then, when the
  variable of a parent of the key is set, the key is shadowed and holds nothing
  (\<^verbatim>\<open>isPathShadowedInAutoEnv\<close>). The configuration file comes last.
  Overrides, flags, aliases, the remote store and viper's own defaults come
  into no lookup of \<^verbatim>\<open>LoadConfig\<close>, which sets none of them.
\<close>

definition viper_find :: "Viper \<Rightarrow> environment \<Rightarrow> string \<Rightarrow> yaml option" where
  "viper_find v env key =
     (if automaticEnvApplied v \<and> env (envPrefix v) key \<noteq> []
      then Some (YString (env (envPrefix v) key))
      else if automaticEnvApplied v \<and> list_ex (\<lambda>p. env (envPrefix v) p \<noteq> []) (parentKeys key)
      then None
      else fileValues v key)"

definition IsSet :: "Viper \<Rightarrow> environment \<Rightarrow> string \<Rightarrow> bool" where
  "IsSet v env key = (viper_find v env key \<noteq> None)"

subsection \<open>Integers and text (strconv, cast)\<close>

text \<open>
  \<^verbatim>\<open>strconv.ParseInt(s, 0, 0)\<close> as cast calls it: an optional sign, then
  digits in the base that the prefix selects (\<^verbatim>\<open>0b\<close> two, \<^verbatim>\<open>0o\<close> or a
  leading \<^verbatim>\<open>0\<close> eight, \<^verbatim>\<open>0x\<close> sixteen, ten otherwise), with underscores
  between digits, within the range of a 64-bit \<^verbatim>\<open>int\<close>. \<open>None\<close> stands for
  either of its errors (syntax, range).
\<close>

definition isDigit :: "char \<Rightarrow> bool" where
  "isDigit c = (48 \<le> (of_char c :: nat) \<and> (of_char c :: nat) \<le> 57)"

definition digitValue :: "char \<Rightarrow> nat option" where
  "digitValue d =
     (let n = (of_char d :: nat) in
      if 48 \<le> n \<and> n \<le> 57 then Some (n - 48)
      else if 97 \<le> n \<and> n \<le> 122 then Some (n - 97 + 10)
      else if 65 \<le> n \<and> n \<le> 90 then Some (n - 65 + 10)
      else None)"

definition isHexLetter :: "char \<Rightarrow> bool" where
  "isHexLetter c = (case digitValue c of None \<Rightarrow> False | Some d \<Rightarrow> 10 \<le> d \<and> d < 16)"

fun parseDigits :: "nat \<Rightarrow> nat \<Rightarrow> string \<Rightarrow> nat option" where
  "parseDigits base n [] = Some n"
| "parseDigits base n (c # s) =
     (if c = CHR ''_'' then parseDigits base n s
      else case digitValue c of
             None \<Rightarrow> None
           | Some d \<Rightarrow> if d \<ge> base then None else parseDigits base (n * base + d) s)"

text \<open>
  \<^verbatim>\<open>underscoreOK\<close>: an underscore must stand between two digits, the base
  prefix counting as a digit. \<open>saw\<close> is the kind of the last character seen.
\<close>

datatype saw = SawStart | SawDigit | SawUnderscore | SawOther

fun underscoreScan :: "bool \<Rightarrow> saw \<Rightarrow> string \<Rightarrow> bool" where
  "underscoreScan hex saw [] = (saw \<noteq> SawUnderscore)"
| "underscoreScan hex saw (c # s) =
     (if isDigit c \<or> (hex \<and> isHexLetter c) then underscoreScan hex SawDigit s
      else if c = CHR ''_''
           then (if saw = SawDigit then underscoreScan hex SawUnderscore s else False)
      else if saw = SawUnderscore then False
      else underscoreScan hex SawOther s)"

definition basePrefix :: "string \<Rightarrow> string \<Rightarrow> bool" where
  "basePrefix letters s = (length s \<ge> 2 \<and> hd s = CHR ''0'' \<and> s ! 1 \<in> set letters)"

definition underscoreOK :: "string \<Rightarrow> bool" where
  "underscoreOK s0 =
     (let s = (if s0 \<noteq> [] \<and> (hd s0 = CHR ''-'' \<or> hd s0 = CHR ''+'') then tl s0 else s0)
      in if basePrefix ''bBoOxX'' s
         then underscoreScan (basePrefix ''xX'' s) SawDigit (drop 2 s)
         else underscoreScan False SawStart s)"

definition ParseUint :: "string \<Rightarrow> nat option" where
  "ParseUint s =
     (case s of
        [] \<Rightarrow> None
      | c # r \<Rightarrow>
          (let long = (length s \<ge> 3);
               bd = (if c = CHR ''0''
                     then (if long \<and> basePrefix ''bB'' s then (2, drop 2 s)
                           else if long \<and> basePrefix ''oO'' s then (8, drop 2 s)
                           else if long \<and> basePrefix ''xX'' s then (16, drop 2 s)
                           else (8, r))
                     else (10, s))
           in case parseDigits (fst bd) 0 (snd bd) of
                None \<Rightarrow> None
              | Some n \<Rightarrow>
                  if CHR ''_'' \<in> set (snd bd) \<and> \<not> underscoreOK s then None else Some n))"

definition ParseInt :: "string \<Rightarrow> int option" where
  "ParseInt s =
     (case s of
        [] \<Rightarrow> None
      | c # r \<Rightarrow>
          (let neg = (c = CHR ''-'');
               s1 = (if c = CHR ''+'' \<or> c = CHR ''-'' then r else s)
           in case ParseUint s1 of
                None \<Rightarrow> None
              | Some un \<Rightarrow>
                  if neg then (if un > 2 ^ 63 then None else Some (- int un))
                  else (if un \<ge> 2 ^ 63 then None else Some (int un))))"

text \<open>\<^verbatim>\<open>strconv.Itoa\<close>: an integer in decimal.\<close>

fun digitsOf :: "nat \<Rightarrow> string" where
  "digitsOf n =
     (if n < 10 then [char_of (48 + n)] else digitsOf (n div 10) @ [char_of (48 + n mod 10)])"

declare digitsOf.simps [simp del]

definition Itoa :: "int \<Rightarrow> string" where
  "Itoa i = (if i < 0 then CHR ''-'' # digitsOf (nat (- i)) else digitsOf (nat i))"

text \<open>
  \<^verbatim>\<open>cast.ToString\<close> and \<^verbatim>\<open>cast.ToInt\<close> with their errors dropped, as
  \<^verbatim>\<open>GetString\<close> and \<^verbatim>\<open>GetInt\<close> drop them: a value that has no text reads
  as the empty string, and one that has no integer value as 0, a string that
  \<^verbatim>\<open>ParseInt\<close> refuses among them. A string goes to \<^verbatim>\<open>ParseInt\<close> as it
  stands; what some releases of cast do first to a string with a decimal
  point is left out. A key that is not set reads as the empty string and as 0.
\<close>

fun ToString :: "yaml \<Rightarrow> string" where
  "ToString (YString s) = s"
| "ToString (YInt i) = Itoa i"
| "ToString (YBool b) = (if b then ''true'' else ''false'')"
| "ToString (YFloat t i) = t"
| "ToString YNode = []"

fun ToInt :: "yaml \<Rightarrow> int" where
  "ToInt (YString s) = (case ParseInt s of None \<Rightarrow> 0 | Some n \<Rightarrow> n)"
| "ToInt (YInt i) = i"
| "ToInt (YBool b) = (if b then 1 else 0)"
| "ToInt (YFloat t i) = i"
| "ToInt YNode = 0"

definition GetString :: "Viper \<Rightarrow> environment \<Rightarrow> string \<Rightarrow> string" where
  "GetString v env key = (case viper_find v env key of None \<Rightarrow> [] | Some y \<Rightarrow> ToString y)"

definition GetInt :: "Viper \<Rightarrow> environment \<Rightarrow> string \<Rightarrow> int" where
  "GetInt v env key = (case viper_find v env key of None \<Rightarrow> 0 | Some y \<Rightarrow> ToInt y)"

subsection \<open>Floating point (float64)\<close>

text \<open>
  \<^verbatim>\<open>time.ParseDuration\<close> scales the fraction of a number in \<^verbatim>\<open>float64\<close>.
  A positive \<^verbatim>\<open>float64\<close> in the normal range is a pair \<open>(m, e)\<close> that stands
  for \<open>m * 2 ^ e\<close>, with \<open>m\<close> of at most 53 bits. \<open>toFloat64 p q\<close> is the value
  nearest to the quotient \<open>p / q\<close>, a tie going to the even neighbour, as IEEE
  754 rounds every conversion, product and quotient. \<open>toFloat64 p q\<close> is used
  for positive \<open>p\<close> and \<open>q\<close> only, and all values that arise are in the normal
  range.
\<close>

fun bitLength :: "nat \<Rightarrow> nat" where
  "bitLength n = (if n = 0 then 0 else Suc (bitLength (n div 2)))"

declare bitLength.simps [simp del]

definition roundHalfEven :: "nat \<Rightarrow> nat \<Rightarrow> nat" where
  "roundHalfEven p q =
     (let d = p div q; r = p mod q
      in if 2 * r < q then d else if q < 2 * r then d + 1 else if even d then d else d + 1)"

type_synonym float64 = "nat \<times> int"

definition toFloat64 :: "nat \<Rightarrow> nat \<Rightarrow> float64" where
  "toFloat64 p q =
     (let k = int (bitLength p) - int (bitLength q);
          reaches = (if 0 \<le> k then q * 2 ^ nat k \<le> p else q \<le> p * 2 ^ nat (- k));
          e = (if reaches then k else k - 1) - 52
      in (if 0 \<le> e then roundHalfEven p (q * 2 ^ nat e) else roundHalfEven (p * 2 ^ nat (- e)) q,
          e))"

definition natFloat64 :: "nat \<Rightarrow> float64" where
  "natFloat64 n = toFloat64 n 1"

definition mulFloat64 :: "float64 \<Rightarrow> float64 \<Rightarrow> float64" where
  "mulFloat64 x y =
     (let e = snd x + snd y
      in if 0 \<le> e then toFloat64 (fst x * fst y * 2 ^ nat e) 1
         else toFloat64 (fst x * fst y) (2 ^ nat (- e)))"

definition divFloat64 :: "float64 \<Rightarrow> float64 \<Rightarrow> float64" where
  "divFloat64 x y =
     (let e = snd x - snd y
      in if 0 \<le> e then toFloat64 (fst x * 2 ^ nat e) (fst y)
         else toFloat64 (fst x) (fst y * 2 ^ nat (- e)))"

definition truncFloat64 :: "float64 \<Rightarrow> nat" where
  "truncFloat64 x = (if 0 \<le> snd x then fst x * 2 ^ nat (snd x) else fst x div 2 ^ nat (- snd x))"

subsection \<open>Durations from text (time.ParseDuration)\<close>

text \<open>
  \<^verbatim>\<open>time.ParseDuration\<close> reads \<^verbatim>\<open>[-+]?([0-9]*(\.[0-9]*)?[a-z]+)+\<close>. The
  model follows its loop: \<open>leadingInt\<close> and \<open>leadingFraction\<close> are its two
  helpers. The numbers are \<^verbatim>\<open>uint64\<close> in Go and natural numbers here, with
  Go's checks against \<open>2^63\<close>; the one sum that can pass \<open>2^64\<close>, the running
  total, wraps as it does in Go. \<open>scale\<close> is a power of ten below \<open>10^20\<close>,
  which \<^verbatim>\<open>float64\<close> holds exactly.
\<close>

definition two63 :: nat where
  "two63 = 2 ^ 63"

fun leadingInt :: "nat \<Rightarrow> string \<Rightarrow> (nat \<times> string) option" where
  "leadingInt x [] = Some (x, [])"
| "leadingInt x (c # s) =
     (if \<not> isDigit c then Some (x, c # s)
      else if x > two63 div 10 then None
      else (let x' = x * 10 + (of_char c - 48) in
            if x' > two63 then None else leadingInt x' s))"

fun leadingFraction :: "nat \<Rightarrow> nat \<Rightarrow> bool \<Rightarrow> string \<Rightarrow> nat \<times> nat \<times> string" where
  "leadingFraction x scale overflow [] = (x, scale, [])"
| "leadingFraction x scale overflow (c # s) =
     (if \<not> isDigit c then (x, scale, c # s)
      else if overflow then leadingFraction x scale overflow s
      else if x > (two63 - 1) div 10 then leadingFraction x scale True s
      else (let y = x * 10 + (of_char c - 48) in
            if y > two63 then leadingFraction x scale True s
            else leadingFraction y (scale * 10) overflow s))"

definition unitMap :: "string \<Rightarrow> nat option" where
  "unitMap u =
     (if u = ''ns'' then Some 1
      else if u = ''us'' then Some 1000
      else if u = [CHR 0xC2, CHR 0xB5, CHR ''s''] then Some 1000
      else if u = [CHR 0xCE, CHR 0xBC, CHR ''s''] then Some 1000
      else if u = ''ms'' then Some 1000000
      else if u = ''s'' then Some 1000000000
      else if u = ''m'' then Some 60000000000
      else if u = ''h'' then Some 3600000000000
      else None)"

definition inNumber :: "char \<Rightarrow> bool" where
  "inNumber c = (c = CHR ''.'' \<or> isDigit c)"

text \<open>
  The nanoseconds of a fraction \<open>f / scale\<close> of a unit:
  \<^verbatim>\<open>uint64(float64(f) * (float64(unit) / scale))\<close>.
\<close>

definition fractionOf :: "nat \<Rightarrow> nat \<Rightarrow> nat \<Rightarrow> nat" where
  "fractionOf f unit scale =
     truncFloat64 (mulFloat64 (natFloat64 f) (divFloat64 (natFloat64 unit) (natFloat64 scale)))"

text \<open>
  One pass of the loop: a number, its unit, and the rest of the text. The
  result is the nanoseconds of this term and what is left to read.
\<close>

definition parseTerm :: "string \<Rightarrow> string \<Rightarrow> error + (nat \<times> string)" where
  "parseTerm orig s =
     (if \<not> inNumber (hd s) then Inl (ErrInvalidDuration orig)
      else case leadingInt 0 s of
        None \<Rightarrow> Inl (ErrInvalidDuration orig)
      | Some (v, s1) \<Rightarrow>
          (let pre = (length s \<noteq> length s1);
               dot = (s1 \<noteq> [] \<and> hd s1 = CHR ''.'');
               fr = (if dot then leadingFraction 0 1 False (tl s1) else (0, 1, s1));
               f = fst fr; scale = fst (snd fr); s2 = snd (snd fr);
               post = (dot \<and> length (tl s1) \<noteq> length s2);
               u = takeWhile (\<lambda>c. \<not> inNumber c) s2;
               s3 = dropWhile (\<lambda>c. \<not> inNumber c) s2
           in if \<not> pre \<and> \<not> post then Inl (ErrInvalidDuration orig)
              else if u = [] then Inl (ErrMissingUnit orig)
              else case unitMap u of
                     None \<Rightarrow> Inl (ErrUnknownUnit u orig)
                   | Some unit \<Rightarrow>
                       if v > two63 div unit then Inl (ErrInvalidDuration orig)
                       else (let w = v * unit + (if f > 0 then fractionOf f unit scale else 0)
                             in if f > 0 \<and> w > two63 then Inl (ErrInvalidDuration orig)
                                else Inr (w, s3))))"

lemma leadingInt_length: "leadingInt x s = Some (v, r) \<Longrightarrow> length r \<le> length s"
  by (induction x s rule: leadingInt.induct) (auto split: if_splits simp: Let_def)

lemma leadingFraction_length: "length (snd (snd (leadingFraction x sc ov s))) \<le> length s"
proof (induction s arbitrary: x sc ov)
  case Nil
  then show ?case by simp
next
  case (Cons c s)
  have step: "length (snd (snd (leadingFraction y t b s))) \<le> Suc (length s)" for y t b
    using Cons [of y t b] by linarith
  show ?case
    by (simp add: Let_def step)
qed

lemma parseTerm_shorter:
  assumes "parseTerm orig s = Inr (w, r)" and "s \<noteq> []"
  shows "length r < length s"
proof -
  from assms(1) obtain v s1 where li: "leadingInt 0 s = Some (v, s1)"
    by (auto simp: parseTerm_def split: if_splits option.splits)
  define dot where "dot = (s1 \<noteq> [] \<and> hd s1 = CHR ''.'')"
  define fr where "fr = (if dot then leadingFraction 0 1 False (tl s1) else (0, 1, s1))"
  define s2 where "s2 = snd (snd fr)"
  have r: "r = dropWhile (\<lambda>c. \<not> inNumber c) s2"
    and u: "takeWhile (\<lambda>c. \<not> inNumber c) s2 \<noteq> []"
    using assms(1) li
    by (auto simp: parseTerm_def Let_def dot_def fr_def s2_def split: if_splits option.splits)
  have "length s2 \<le> length s1"
  proof (cases dot)
    case True
    have "length s2 \<le> length (tl s1)"
      using True leadingFraction_length [of 0 1 False "tl s1"] by (simp add: s2_def fr_def)
    then show ?thesis by simp
  next
    case False
    then show ?thesis by (simp add: s2_def fr_def)
  qed
  moreover have "length s1 \<le> length s"
    using li by (rule leadingInt_length)
  moreover have "length r < length s2"
  proof -
    have "length (takeWhile (\<lambda>c. \<not> inNumber c) s2) + length r = length s2"
      unfolding r by (metis length_append takeWhile_dropWhile_id)
    moreover have "length (takeWhile (\<lambda>c. \<not> inNumber c) s2) > 0"
      using u by simp
    ultimately show ?thesis by linarith
  qed
  ultimately show ?thesis by linarith
qed

function parseTerms :: "string \<Rightarrow> nat \<Rightarrow> string \<Rightarrow> error + nat" where
  "parseTerms orig d s =
     (if s = [] then Inr d
      else case parseTerm orig s of
             Inl e \<Rightarrow> Inl e
           | Inr (w, r) \<Rightarrow>
               if (d + w) mod 2 ^ 64 > two63 then Inl (ErrInvalidDuration orig)
               else parseTerms orig ((d + w) mod 2 ^ 64) r)"
  by pat_completeness auto
termination
  by (relation "measure (\<lambda>(orig, d, s). length s)") (auto dest: parseTerm_shorter)

declare parseTerms.simps [simp del]

text \<open>
  A negative duration may reach \<open>- 2^63\<close>; any other stops at \<open>2^63 - 1\<close>.
\<close>

definition ParseDuration :: "string \<Rightarrow> error + duration" where
  "ParseDuration orig =
     (let signed = (orig \<noteq> [] \<and> (hd orig = CHR ''-'' \<or> hd orig = CHR ''+''));
          neg = (orig \<noteq> [] \<and> hd orig = CHR ''-'');
          s = (if signed then tl orig else orig)
      in if s = ''0'' then Inr 0
         else if s = [] then Inl (ErrInvalidDuration orig)
         else case parseTerms orig 0 s of
                Inl e \<Rightarrow> Inl e
              | Inr d \<Rightarrow>
                  if neg then Inr (- int d)
                  else if d > two63 - 1 then Inl (ErrInvalidDuration orig)
                  else Inr (int d))"

text \<open>The errors that \<^verbatim>\<open>ParseDuration\<close> can return.\<close>

fun durationError :: "error \<Rightarrow> bool" where
  "durationError (ErrInvalidDuration s) = True"
| "durationError (ErrMissingUnit s) = True"
| "durationError (ErrUnknownUnit u s) = True"
| "durationError e = False"

subsection \<open>Base64 (encoding/base64)\<close>

text \<open>
  The two padded encodings of encoding/base64, which differ in their last two
  letters. \<^verbatim>\<open>EncodeToString\<close> turns each three bytes into four letters and
  pads a shorter last group with \<^verbatim>\<open>=\<close>. \<^verbatim>\<open>DecodeString\<close> skips carriage
  returns and line feeds, reads four letters at a time, accepts padding in
  the last group only, and fails on any other letter.
\<close>

type_synonym byte = "8 word"

definition encodeStd :: string where
  "encodeStd = ''ABCDEFGHIJKLMNOPQRSTUVWXYZabcdefghijklmnopqrstuvwxyz0123456789+/''"

definition encodeURL :: string where
  "encodeURL = ''ABCDEFGHIJKLMNOPQRSTUVWXYZabcdefghijklmnopqrstuvwxyz0123456789-_''"

fun EncodeToString :: "string \<Rightarrow> byte list \<Rightarrow> string" where
  "EncodeToString enc [] = []"
| "EncodeToString enc [a] =
     (let val = unat a * 65536
      in [enc ! (val div 262144), enc ! (val div 4096 mod 64), CHR ''='', CHR ''=''])"
| "EncodeToString enc [a, b] =
     (let val = unat a * 65536 + unat b * 256
      in [enc ! (val div 262144), enc ! (val div 4096 mod 64), enc ! (val div 64 mod 64),
          CHR ''=''])"
| "EncodeToString enc (a # b # c # src) =
     (let val = unat a * 65536 + unat b * 256 + unat c
      in enc ! (val div 262144) # enc ! (val div 4096 mod 64) # enc ! (val div 64 mod 64) #
         enc ! (val mod 64) # EncodeToString enc src)"

fun indexOf :: "'a list \<Rightarrow> 'a \<Rightarrow> nat option" where
  "indexOf [] c = None"
| "indexOf (x # xs) c = (if x = c then Some 0 else map_option Suc (indexOf xs c))"

fun decodeQuanta :: "string \<Rightarrow> string \<Rightarrow> byte list option" where
  "decodeQuanta enc [] = Some []"
| "decodeQuanta enc (c0 # c1 # c2 # c3 # src) =
     (case (indexOf enc c0, indexOf enc c1) of
        (Some i0, Some i1) \<Rightarrow>
          if src = [] \<and> c2 = CHR ''='' \<and> c3 = CHR ''=''
          then Some [word_of_nat ((i0 * 64 + i1) div 16)]
          else (case indexOf enc c2 of
                  None \<Rightarrow> None
                | Some i2 \<Rightarrow>
                    if src = [] \<and> c3 = CHR ''=''
                    then (let val = (i0 * 64 + i1) * 64 + i2
                          in Some [word_of_nat (val div 1024), word_of_nat (val div 4 mod 256)])
                    else (case indexOf enc c3 of
                            None \<Rightarrow> None
                          | Some i3 \<Rightarrow>
                              (let val = ((i0 * 64 + i1) * 64 + i2) * 64 + i3
                               in map_option
                                    (\<lambda>dst. word_of_nat (val div 65536) #
                                           word_of_nat (val div 256 mod 256) #
                                           word_of_nat (val mod 256) # dst)
                                    (decodeQuanta enc src))))
      | _ \<Rightarrow> None)"
| "decodeQuanta enc _ = None"

definition DecodeString :: "string \<Rightarrow> string \<Rightarrow> byte list option" where
  "DecodeString enc s =
     decodeQuanta enc (filter (\<lambda>c. c \<noteq> CHR 0x0D \<and> c \<noteq> CHR 0x0A) s)"

subsection \<open>Keys (fernet)\<close>

text \<open>
  A \<^verbatim>\<open>fernet.Key\<close> is an array of 32 bytes. \<^verbatim>\<open>Generate\<close> fills it from
  the system's random source, which either fails or supplies bytes: \<open>None\<close>
  is the source that fails, \<open>Some r\<close> the source whose \<open>i\<close>-th byte is
  \<open>r i\<close>. \<^verbatim>\<open>Encode\<close> is the URL-safe base64 text of the key.
  \<^verbatim>\<open>DecodeKey\<close> takes a key as 64 hexadecimal digits, or as base64 in the
  standard and then the URL-safe alphabet, and checks its length.
\<close>

type_synonym random_source = "(nat \<Rightarrow> byte) option"

definition keyLen :: nat where
  "keyLen = 32"

definition Generate :: "random_source \<Rightarrow> error + byte list" where
  "Generate rnd =
     (case rnd of None \<Rightarrow> Inl ErrRandomSource | Some r \<Rightarrow> Inr (map r [0..<keyLen]))"

definition Encode :: "byte list \<Rightarrow> string" where
  "Encode k = EncodeToString encodeURL k"

fun hexDecode :: "string \<Rightarrow> byte list option" where
  "hexDecode [] = Some []"
| "hexDecode [c] = None"
| "hexDecode (c # d # s) =
     (case (digitValue c, digitValue d) of
        (Some x, Some y) \<Rightarrow>
          if x < 16 \<and> y < 16 then map_option (\<lambda>bs. word_of_nat (x * 16 + y) # bs) (hexDecode s)
          else None
      | _ \<Rightarrow> None)"

definition DecodeKey :: "string \<Rightarrow> error + byte list" where
  "DecodeKey s =
     (if s = [] then Inl ErrEmptyKey
      else case (if length s = 2 * keyLen then hexDecode s
                 else case DecodeString encodeStd s of
                        None \<Rightarrow> DecodeString encodeURL s
                      | Some b \<Rightarrow> Some b) of
             None \<Rightarrow> Inl ErrKeyEncoding
           | Some b \<Rightarrow> if length b \<noteq> keyLen then Inl ErrKeyLen else Inr b)"

subsection \<open>LoadConfig\<close>

text \<open>
  \<^verbatim>\<open>LoadConfig\<close> has two named results, \<^verbatim>\<open>config *Config\<close> and
  \<^verbatim>\<open>err error\<close>; both start as nil, and a bare \<^verbatim>\<open>return\<close> answers their
  current values. \<^verbatim>\<open>config\<close> is assigned once, on line 175. The values
  being loaded live in the local \<^verbatim>\<open>cfgFile.Clair\<close>, here \<open>c\<close>. The
  package variable \<^verbatim>\<open>clairConfig\<close> is the state that a call takes and
  leaves: \<open>None\<close> is the nil pointer of a fresh process. The log line and
  the debugging print are not modelled.

  A write through a pointer panics when the pointer is nil. Where the pointer
  is not nil the object written is the one it points to, which is not
  \<^verbatim>\<open>cfgFile.Clair\<close>; nothing reads it again.
\<close>

definition derefWrite :: "'a option \<Rightarrow> unit outcome" where
  "derefWrite p = (case p of None \<Rightarrow> Panic | Some x \<Rightarrow> Return ())"

definition setOption :: "string \<Rightarrow> string \<Rightarrow> Config \<Rightarrow> Config" where
  "setOption k x c = c\<lparr> Database := (Database c)\<lparr> Options := (Options (Database c))(k \<mapsto> x) \<rparr> \<rparr>"

text \<open>Lines 79 to 88: the resolver is built and the file read on the first call only.\<close>

definition openResolver :: "Viper option \<Rightarrow> string \<Rightarrow> filesystem \<Rightarrow> Viper \<times> error option" where
  "openResolver clairConfig path fs =
     (let r = (case clairConfig of
                 None \<Rightarrow> ReadInConfig (SetConfigFile (SetConfigName viper_New ''clair'') path) fs
               | Some v \<Rightarrow> (v, None))
      in (AutomaticEnv (SetEnvPrefix (fst r) ''clair''), snd r))"

text \<open>Lines 91 to 112: the defaults, the database settings and the health port.\<close>

definition loadDatabase :: "Viper \<Rightarrow> environment \<Rightarrow> Config" where
  "loadDatabase v env =
     (let c = DefaultConfig;
          c = c\<lparr> Database := (Database c)\<lparr> Options := Map.empty \<rparr> \<rparr>;
          c = (if IsSet v env ''clair.database.type''
               then c\<lparr> Database := (Database c)\<lparr> Type := GetString v env ''clair.database.type'' \<rparr> \<rparr>
               else c);
          c = (if IsSet v env ''clair.database.options.source''
               then setOption ''source'' (GetString v env ''clair.database.options.source'') c
               else c);
          c = (if IsSet v env ''clair.database.options.cachesize''
               then setOption ''cachesize'' (GetString v env ''clair.database.options.cachesize'') c
               else c);
          c = (if IsSet v env ''clair.database.options.paginationkey''
               then setOption ''paginationkey''
                      (GetString v env ''clair.database.options.paginationkey'') c
               else c);
          c = (if IsSet v env ''clair.database.api.healthaddr''
               then c\<lparr> API := (API c)\<lparr> HealthPort := GetInt v env ''clair.database.api.healthport'' \<rparr> \<rparr>
               else c)
      in c)"

text \<open>
  Lines 113 to 118, 135 to 140 and 147 to 152 assign a duration and
  \<^verbatim>\<open>err\<close> together and return when \<^verbatim>\<open>err\<close> is not nil: \<open>Inl\<close> is that
  return, \<open>Inr\<close> carries \<open>c\<close> and \<^verbatim>\<open>err\<close> on.
\<close>

definition loadTimeout ::
  "Viper \<Rightarrow> environment \<Rightarrow> Config \<times> error option \<Rightarrow> error + Config \<times> error option" where
  "loadTimeout v env ce =
     (if IsSet v env ''clair.database.api.timeout''
      then (case ParseDuration (GetString v env ''clair.database.api.timeout'') of
              Inl e \<Rightarrow> Inl e
            | Inr d \<Rightarrow> Inr ((fst ce)\<lparr> API := (API (fst ce))\<lparr> Timeout := d \<rparr> \<rparr>, None))
      else Inr ce)"

text \<open>Lines 120 to 128.\<close>

definition loadFiles :: "Viper \<Rightarrow> environment \<Rightarrow> Config \<Rightarrow> Config" where
  "loadFiles v env c0 =
     (let c = c0;
          c = (if IsSet v env ''clair.database.api.cafile''
               then c\<lparr> API := (API c)\<lparr> CAFile := GetString v env ''clair.database.api.cafile'' \<rparr> \<rparr>
               else c);
          c = (if IsSet v env ''clair.database.api.keyfile''
               then c\<lparr> API := (API c)\<lparr> KeyFile := GetString v env ''clair.database.api.keyfile'' \<rparr> \<rparr>
               else c);
          c = (if IsSet v env ''clair.database.api.certfile''
               then c\<lparr> API := (API c)\<lparr> CertFile := GetString v env ''clair.database.api.certfile'' \<rparr> \<rparr>
               else c)
      in c)"

definition loadInterval ::
  "Viper \<Rightarrow> environment \<Rightarrow> Config \<times> error option \<Rightarrow> error + Config \<times> error option" where
  "loadInterval v env ce =
     (if IsSet v env ''clair.database.updater.interval''
      then (case ParseDuration (GetString v env ''clair.database.updater.interval'') of
              Inl e \<Rightarrow> Inl e
            | Inr d \<Rightarrow> Inr ((fst ce)\<lparr> Updater := (Updater (fst ce))\<lparr> Interval := d \<rparr> \<rparr>, None))
      else Inr ce)"

text \<open>Lines 144 to 146.\<close>

definition loadAttempts :: "Viper \<Rightarrow> environment \<Rightarrow> Config \<Rightarrow> Config" where
  "loadAttempts v env c =
     (if IsSet v env ''clair.database.notifier.attempts''
      then c\<lparr> Notifier := (Notifier c)\<lparr> Attempts := GetInt v env ''clair.database.updater.attempts'' \<rparr> \<rparr>
      else c)"

definition loadRenotifyInterval ::
  "Viper \<Rightarrow> environment \<Rightarrow> Config \<times> error option \<Rightarrow> error + Config \<times> error option" where
  "loadRenotifyInterval v env ce =
     (if IsSet v env ''clair.database.notifier.renotifyinterval''
      then (case ParseDuration (GetString v env ''clair.database.updater.renotifyinterval'') of
              Inl e \<Rightarrow> Inl e
            | Inr d \<Rightarrow>
                Inr ((fst ce)\<lparr> Notifier := (Notifier (fst ce))\<lparr> RenotifyInterval := d \<rparr> \<rparr>, None))
      else Inr ce)"

text \<open>
  Lines 153 to 157: the assignment goes through \<^verbatim>\<open>config\<close>, not through
  \<^verbatim>\<open>cfgFile.Clair\<close>.
\<close>

definition loadNotifierHTTP :: "Viper \<Rightarrow> environment \<Rightarrow> Config option \<Rightarrow> unit outcome" where
  "loadNotifierHTTP v env config =
     (if IsSet v env ''clair.database.notifier.http'' then derefWrite config else Return ())"

text \<open>
  Lines 159 to 176: the pagination key is generated when none is set; when one
  is set, it is first stored through \<^verbatim>\<open>config\<close> and then checked. Both
  reads on lines 168 and 169 use the key path \<^verbatim>\<open>paginationkey\<close>.
\<close>

definition loadPaginationKey ::
  "Viper \<Rightarrow> environment \<Rightarrow> random_source \<Rightarrow> Config option \<Rightarrow> Config \<Rightarrow>
     (Config option \<times> error option) outcome" where
  "loadPaginationKey v env rnd config c =
     (if \<not> IsSet v env ''clair.database.options.paginationkey''
      then (case Generate rnd of
              Inl e \<Rightarrow> Return (config, Some e)
            | Inr key \<Rightarrow> Return (Some (setOption ''paginationkey'' (Encode key) c), None))
      else (case derefWrite config of
              Panic \<Rightarrow> Panic
            | Return u \<Rightarrow>
                (case DecodeKey (GetString v env ''paginationkey'') of
                   Inl e \<Rightarrow> Return (config, Some ErrInvalidPaginationKey)
                 | Inr k \<Rightarrow> Return (Some c, None))))"

text \<open>
  The body of \<^verbatim>\<open>LoadConfig\<close> after the resolver is ready, in the order of the
  source. \<open>err\<close> is what line 84 left in \<^verbatim>\<open>err\<close>.
\<close>

definition loadFrom ::
  "Viper \<Rightarrow> environment \<Rightarrow> random_source \<Rightarrow> error option \<Rightarrow>
     (Config option \<times> error option) outcome" where
  "loadFrom v env rnd err =
     (let config = None
      in case loadTimeout v env (loadDatabase v env, err) of
           Inl e \<Rightarrow> Return (config, Some e)
         | Inr ce1 \<Rightarrow>
        (case loadInterval v env (loadFiles v env (fst ce1), snd ce1) of
           Inl e \<Rightarrow> Return (config, Some e)
         | Inr ce2 \<Rightarrow>
        (case loadRenotifyInterval v env (loadAttempts v env (fst ce2), snd ce2) of
           Inl e \<Rightarrow> Return (config, Some e)
         | Inr ce3 \<Rightarrow>
        (case loadNotifierHTTP v env config of
           Panic \<Rightarrow> Panic
         | Return u \<Rightarrow> loadPaginationKey v env rnd config (fst ce3)))))"

definition LoadConfig ::
  "Viper option \<Rightarrow> string \<Rightarrow> filesystem \<Rightarrow> environment \<Rightarrow> random_source \<Rightarrow>
     (Config option \<times> error option) outcome \<times> Viper option" where
  "LoadConfig clairConfig path fs env rnd =
     (let r = openResolver clairConfig path fs
      in (loadFrom (fst r) env rnd (snd r), Some (fst r)))"

subsection \<open>Inputs for the concrete runs\<close>

text \<open>
  A file system that holds one configuration file, or none. The file is given
  by its leaves, each a key path with the YAML string it holds; the parents of
  a leaf are the inner nodes of the file. An environment that holds the given
  variables under the prefix \<^verbatim>\<open>clair\<close>, or none; and a random source that
  supplies zero bytes.
\<close>

definition oneFile :: "(string \<times> string) list \<Rightarrow> filesystem" where
  "oneFile kvs =
     (\<lambda>p. if p = ''/etc/clair/config.yaml''
          then Some (\<lambda>key. case map_of kvs key of
                             Some x \<Rightarrow> Some (YString x)
                           | None \<Rightarrow>
                               if list_ex (\<lambda>kv. key \<in> set (parentKeys (fst kv))) kvs
                               then Some YNode else None)
          else None)"

definition noFiles :: filesystem where
  "noFiles = (\<lambda>p. None)"

definition envWith :: "(string \<times> string) list \<Rightarrow> environment" where
  "envWith kvs = (\<lambda>prefix key. if prefix = ''clair''
                                then (case map_of kvs key of None \<Rightarrow> [] | Some x \<Rightarrow> x) else [])"

definition noEnv :: environment where
  "noEnv = (\<lambda>prefix key. [])"

definition zeroSource :: random_source where
  "zeroSource = Some (\<lambda>i. 0)"

text \<open>The Config of a call that returned one with a nil error.\<close>

definition loaded ::
  "(Config option \<times> error option) outcome \<times> Viper option \<Rightarrow> Config option" where
  "loaded r = (case fst r of Return (Some c, None) \<Rightarrow> Some c | _ \<Rightarrow> None)"

subsection \<open>The overlay of the specification\<close>

text \<open>
  The specification's reading of the environment layer (its sections 4.2 and
  6), for comparison with \<^verbatim>\<open>LoadConfig\<close> on the empty path. Every key of
  the specification's table, under the top-level key \<^verbatim>\<open>clair\<close> of its file
  format, is read from its environment variable. A value that is set replaces
  the one in the Config, a duration or an integer being parsed from its text;
  a text that does not parse makes the overlay fail.
\<close>

definition envValue :: "environment \<Rightarrow> string \<Rightarrow> string option" where
  "envValue env key = (if env ''clair'' key = [] then None else Some (env ''clair'' key))"

definition overString :: "environment \<Rightarrow> string \<Rightarrow> string \<Rightarrow> string" where
  "overString env key old = (case envValue env key of None \<Rightarrow> old | Some s \<Rightarrow> s)"

definition overOption ::
  "environment \<Rightarrow> string \<Rightarrow> string \<Rightarrow> (string \<rightharpoonup> string) \<Rightarrow> (string \<rightharpoonup> string)" where
  "overOption env key name m = (case envValue env key of None \<Rightarrow> m | Some s \<Rightarrow> m(name \<mapsto> s))"

definition overDuration :: "environment \<Rightarrow> string \<Rightarrow> duration \<Rightarrow> duration option" where
  "overDuration env key old =
     (case envValue env key of
        None \<Rightarrow> Some old
      | Some s \<Rightarrow> (case ParseDuration s of Inl e \<Rightarrow> None | Inr d \<Rightarrow> Some d))"

definition overInt :: "environment \<Rightarrow> string \<Rightarrow> int \<Rightarrow> int option" where
  "overInt env key old = (case envValue env key of None \<Rightarrow> Some old | Some s \<Rightarrow> ParseInt s)"

definition overlayEnvironment :: "environment \<Rightarrow> Config \<Rightarrow> Config option" where
  "overlayEnvironment env c =
     (case overDuration env ''clair.api.timeout'' (Timeout (API c)) of
        None \<Rightarrow> None
      | Some t \<Rightarrow>
     (case overDuration env ''clair.updater.interval'' (Interval (Updater c)) of
        None \<Rightarrow> None
      | Some i \<Rightarrow>
     (case overDuration env ''clair.notifier.renotifyinterval''
             (RenotifyInterval (Notifier c)) of
        None \<Rightarrow> None
      | Some r \<Rightarrow>
     (case overInt env ''clair.api.healthport'' (HealthPort (API c)) of
        None \<Rightarrow> None
      | Some h \<Rightarrow>
     (case overInt env ''clair.notifier.attempts'' (Attempts (Notifier c)) of
        None \<Rightarrow> None
      | Some a \<Rightarrow>
          Some \<lparr> Database =
                   \<lparr> Type = overString env ''clair.database.type'' (Type (Database c)),
                     Options =
                       overOption env ''clair.database.options.paginationkey'' ''paginationkey''
                         (overOption env ''clair.database.options.cachesize'' ''cachesize''
                            (overOption env ''clair.database.options.source'' ''source''
                               (Options (Database c)))) \<rparr>,
                 Updater = \<lparr> Interval = i \<rparr>,
                 Notifier = \<lparr> Attempts = a, RenotifyInterval = r,
                              Params = Params (Notifier c) \<rparr>,
                 API = \<lparr> Port = Port (API c), HealthPort = h, Timeout = t,
                         CAFile = overString env ''clair.api.cafile'' (CAFile (API c)),
                         KeyFile = overString env ''clair.api.keyfile'' (KeyFile (API c)),
                         CertFile = overString env ''clair.api.certfile''
                                      (CertFile (API c)) \<rparr> \<rparr>)))))"

section \<open>Properties\<close>

lemmas viper_defs =
  viper_New_def SetConfigName_def SetConfigFile_def ReadInConfig_def SetEnvPrefix_def
  AutomaticEnv_def parentKeys_def viper_find_def IsSet_def GetString_def GetInt_def

lemmas number_defs =
  ParseInt_def ParseUint_def basePrefix_def underscoreOK_def isHexLetter_def digitValue_def
  ParseDuration_def parseTerms.simps parseTerm_def inNumber_def isDigit_def unitMap_def
  two63_def Let_def

lemmas key_defs =
  Generate_def Encode_def keyLen_def encodeURL_def encodeStd_def DecodeKey_def DecodeString_def

lemmas load_defs =
  LoadConfig_def openResolver_def loadFrom_def loadDatabase_def loadTimeout_def loadFiles_def
  loadInterval_def loadAttempts_def loadRenotifyInterval_def loadNotifierHTTP_def
  loadPaginationKey_def derefWrite_def setOption_def

lemmas overlay_defs =
  envValue_def overString_def overOption_def overDuration_def overInt_def
  overlayEnvironment_def

lemmas input_defs =
  oneFile_def noFiles_def envWith_def noEnv_def zeroSource_def loaded_def

subsection \<open>Base64 decodes what it encoded\<close>

lemma indexOf_nth: "distinct xs \<Longrightarrow> i < length xs \<Longrightarrow> indexOf xs (xs ! i) = Some i"
proof (induction xs arbitrary: i)
  case Nil
  then show ?case by simp
next
  case (Cons x xs)
  show ?case
  proof (cases i)
    case 0
    then show ?thesis by simp
  next
    case (Suc j)
    with Cons.prems have "j < length xs" and "distinct xs" and "xs ! j \<noteq> x"
      by auto
    with Cons.IH [of j] Suc show ?thesis by auto
  qed
qed

lemma base_split: "(n::nat) div (b * c) * c + n div b mod c = n div b"
  by (simp add: div_mult2_eq)

lemma digits64_2: "(n::nat) div 262144 * 64 + n div 4096 mod 64 = n div 4096"
  using base_split [of n 4096 64] by simp

lemma digits64_3: "((n::nat) div 262144 * 64 + n div 4096 mod 64) * 64 + n div 64 mod 64 = n div 64"
  using base_split [of n 64 64] by (simp add: digits64_2)

lemma digits64_4:
  "(((n::nat) div 262144 * 64 + n div 4096 mod 64) * 64 + n div 64 mod 64) * 64 + n mod 64 = n"
  by (simp only: digits64_3 div_mult_mod_eq)

lemma bytes3:
  fixes x y z :: nat
  assumes "x < 256" "y < 256" "z < 256"
  shows "(x * 65536 + y * 256 + z) div 262144 < 64"
    and "(x * 65536 + y * 256 + z) div 65536 = x"
    and "(x * 65536 + y * 256 + z) div 256 mod 256 = y"
    and "(x * 65536 + y * 256 + z) mod 256 = z"
proof -
  have e: "x * 65536 + y * 256 + z = (x * 256 + y) * 256 + z"
    by simp
  show "(x * 65536 + y * 256 + z) div 262144 < 64"
    using assms by (intro less_mult_imp_div_less) simp
  have "(y * 256 + z + x * 65536) div 65536 = x"
    using assms by simp
  then show "(x * 65536 + y * 256 + z) div 65536 = x"
    by (simp add: add.commute add.left_commute)
  have d: "((x * 256 + y) * 256 + z) div 256 = x * 256 + y"
    using assms by simp
  show "(x * 65536 + y * 256 + z) div 256 mod 256 = y"
    unfolding e d using assms by simp
  show "(x * 65536 + y * 256 + z) mod 256 = z"
    unfolding e using assms by (simp del: distrib_right_numeral distrib_left_numeral)
qed

lemma unat_byte: "unat (a :: byte) < 256"
  using unsigned_less [of a, where ?'a = nat] by simp

lemma decodeQuanta_EncodeToString:
  assumes "distinct enc" "length enc = 64" "CHR ''='' \<notin> set enc"
  shows "decodeQuanta enc (EncodeToString enc bs) = Some bs"
  using assms
proof (induction enc bs rule: EncodeToString.induct)
  case (1 enc)
  show ?case by simp
next
  case (2 enc a)
  define val where "val = unat a * 65536"
  have v: "val = unat a * 65536 + 0 * 256 + 0"
    by (simp add: val_def)
  have "val div 262144 < 64"
    unfolding v by (rule bytes3(1)) (simp_all add: unat_byte)
  then have idx0: "indexOf enc (enc ! (val div 262144)) = Some (val div 262144)"
    using "2.prems" by (simp add: indexOf_nth)
  have idx1: "indexOf enc (enc ! (val div 4096 mod 64)) = Some (val div 4096 mod 64)"
    using "2.prems" by (simp add: indexOf_nth)
  have "val div 4096 div 16 = val div 65536"
    using div_mult2_eq [of val 4096 16] by simp
  also have "\<dots> = unat a"
    unfolding v by (rule bytes3(2)) (simp_all add: unat_byte)
  finally have r: "(val div 262144 * 64 + val div 4096 mod 64) div 16 = unat a"
    by (simp only: digits64_2)
  have "decodeQuanta enc [enc ! (val div 262144), enc ! (val div 4096 mod 64), CHR ''='', CHR ''='']
          = Some [a]"
    by (simp add: idx0 idx1 r del: distrib_right_numeral distrib_left_numeral)
  then show ?case
    by (simp only: EncodeToString.simps Let_def val_def)
next
  case (3 enc a b)
  define val where "val = unat a * 65536 + unat b * 256"
  have v: "val = unat a * 65536 + unat b * 256 + 0"
    by (simp add: val_def)
  have "val div 262144 < 64"
    unfolding v by (rule bytes3(1)) (simp_all add: unat_byte)
  then have idx0: "indexOf enc (enc ! (val div 262144)) = Some (val div 262144)"
    using "3.prems" by (simp add: indexOf_nth)
  have idx1: "indexOf enc (enc ! (val div 4096 mod 64)) = Some (val div 4096 mod 64)"
    using "3.prems" by (simp add: indexOf_nth)
  have idx2: "indexOf enc (enc ! (val div 64 mod 64)) = Some (val div 64 mod 64)"
    using "3.prems" by (simp add: indexOf_nth)
  have ne: "enc ! (val div 64 mod 64) \<noteq> CHR ''=''"
    using "3.prems" by (metis mod_less_divisor nth_mem zero_less_numeral)
  have "val div 64 div 1024 = val div 65536"
    using div_mult2_eq [of val 64 1024] by simp
  also have "\<dots> = unat a"
    unfolding v by (rule bytes3(2)) (simp_all add: unat_byte)
  finally have r1: "((val div 262144 * 64 + val div 4096 mod 64) * 64 + val div 64 mod 64) div 1024
                     = unat a"
    by (simp only: digits64_3)
  have "val div 64 div 4 = val div 256"
    using div_mult2_eq [of val 64 4] by simp
  moreover have "val div 256 mod 256 = unat b"
    unfolding v by (rule bytes3(3)) (simp_all add: unat_byte)
  ultimately have r2:
    "((val div 262144 * 64 + val div 4096 mod 64) * 64 + val div 64 mod 64) div 4 mod 256 = unat b"
    by (simp only: digits64_3)
  have "decodeQuanta enc [enc ! (val div 262144), enc ! (val div 4096 mod 64),
                          enc ! (val div 64 mod 64), CHR ''=''] = Some [a, b]"
    by (simp add: idx0 idx1 idx2 ne r1 r2 Let_def del: distrib_right_numeral distrib_left_numeral)
  then show ?case
    by (simp only: EncodeToString.simps Let_def val_def)
next
  case (4 enc a b c src)
  define val where "val = unat a * 65536 + unat b * 256 + unat c"
  have lt: "val div 262144 < 64"
    unfolding val_def by (rule bytes3(1)) (simp_all add: unat_byte)
  then have idx0: "indexOf enc (enc ! (val div 262144)) = Some (val div 262144)"
    using "4.prems" by (simp add: indexOf_nth)
  have idx1: "indexOf enc (enc ! (val div 4096 mod 64)) = Some (val div 4096 mod 64)"
    using "4.prems" by (simp add: indexOf_nth)
  have idx2: "indexOf enc (enc ! (val div 64 mod 64)) = Some (val div 64 mod 64)"
    using "4.prems" by (simp add: indexOf_nth)
  have idx3: "indexOf enc (enc ! (val mod 64)) = Some (val mod 64)"
    using "4.prems" by (simp add: indexOf_nth)
  have ne2: "enc ! (val div 64 mod 64) \<noteq> CHR ''=''"
    using "4.prems" by (metis mod_less_divisor nth_mem zero_less_numeral)
  have ne3: "enc ! (val mod 64) \<noteq> CHR ''=''"
    using "4.prems" by (metis mod_less_divisor nth_mem zero_less_numeral)
  have r1: "val div 65536 = unat a"
    unfolding val_def by (rule bytes3(2)) (simp_all add: unat_byte)
  have r2: "val div 256 mod 256 = unat b"
    unfolding val_def by (rule bytes3(3)) (simp_all add: unat_byte)
  have r3: "val mod 256 = unat c"
    unfolding val_def by (rule bytes3(4)) (simp_all add: unat_byte)
  have IH: "decodeQuanta enc (EncodeToString enc src) = Some src"
    using "4.IH" "4.prems" by simp
  have "decodeQuanta enc (enc ! (val div 262144) # enc ! (val div 4096 mod 64) #
                          enc ! (val div 64 mod 64) # enc ! (val mod 64) #
                          EncodeToString enc src) = Some (a # b # c # src)"
    by (simp add: idx0 idx1 idx2 idx3 ne2 ne3 digits64_4 r1 r2 r3 IH Let_def del: distrib_right_numeral distrib_left_numeral)
  then show ?case
    by (simp only: EncodeToString.simps Let_def val_def)
qed

lemma encodeURL_props:
  "distinct encodeURL" "length encodeURL = 64" "CHR ''='' \<notin> set encodeURL"
  "CHR 0x0D \<notin> set encodeURL" "CHR 0x0A \<notin> set encodeURL"
  by (simp_all add: encodeURL_def)

lemma set_EncodeToString:
  "length enc = 64 \<Longrightarrow> set (EncodeToString enc bs) \<subseteq> insert (CHR ''='') (set enc)"
proof (induction enc bs rule: EncodeToString.induct)
  case (1 enc)
  show ?case by simp
next
  case (2 enc a)
  have "unat a * 65536 div 262144 < 64"
    using bytes3(1) [of "unat a" 0 0] unat_byte [of a] by simp
  with 2 show ?case by (simp add: Let_def)
next
  case (3 enc a b)
  have "(unat a * 65536 + unat b * 256) div 262144 < 64"
    using bytes3(1) [of "unat a" "unat b" 0] unat_byte [of a] unat_byte [of b] by simp
  with 3 show ?case by (simp add: Let_def)
next
  case (4 enc a b c src)
  have "(unat a * 65536 + unat b * 256 + unat c) div 262144 < 64"
    using bytes3(1) [of "unat a" "unat b" "unat c"] unat_byte [of a] unat_byte [of b]
      unat_byte [of c] by simp
  with 4 show ?case by (auto simp: Let_def)
qed

lemma DecodeString_Encode: "DecodeString encodeURL (Encode k) = Some k"
proof -
  have "set (Encode k) \<subseteq> insert (CHR ''='') (set encodeURL)"
    unfolding Encode_def by (rule set_EncodeToString) (rule encodeURL_props)
  then have "\<forall>c \<in> set (Encode k). c \<noteq> CHR 0x0D \<and> c \<noteq> CHR 0x0A"
    using encodeURL_props(4,5) by auto
  then have "filter (\<lambda>c. c \<noteq> CHR 0x0D \<and> c \<noteq> CHR 0x0A) (Encode k) = Encode k"
    by (simp add: filter_id_conv)
  then show ?thesis
    by (simp add: DecodeString_def Encode_def decodeQuanta_EncodeToString encodeURL_props)
qed

subsection \<open>The shape of a load\<close>

lemma Generate_length: "Generate rnd = Inr k \<Longrightarrow> length k = keyLen"
  by (auto simp: Generate_def split: option.splits)

lemma loadFrom_err: "loadFrom v env rnd err = loadFrom v env rnd None"
proof -
  define T where "T c = (case loadNotifierHTTP v env None of
                           Panic \<Rightarrow> Panic
                         | Return u \<Rightarrow> loadPaginationKey v env rnd None c)" for c
  define R where "R ce = (case loadRenotifyInterval v env (loadAttempts v env (fst ce), snd ce) of
                            Inl e \<Rightarrow> Return (None, Some e)
                          | Inr ce3 \<Rightarrow> T (fst ce3))" for ce
  define I where "I ce = (case loadInterval v env (loadFiles v env (fst ce), snd ce) of
                            Inl e \<Rightarrow> Return (None, Some e)
                          | Inr ce2 \<Rightarrow> R ce2)" for ce
  have whole: "loadFrom v env rnd e =
                 (case loadTimeout v env (loadDatabase v env, e) of
                    Inl x \<Rightarrow> Return (None, Some x)
                  | Inr ce1 \<Rightarrow> I ce1)" for e
    by (simp add: loadFrom_def I_def R_def T_def cong: sum.case_cong)
  have R: "R (c, e) = R (c, None)" for c e
    by (simp add: R_def loadRenotifyInterval_def split: sum.splits)
  have I: "I (c, e) = I (c, None)" for c e
    using R [of _ e] by (simp add: I_def loadInterval_def split: sum.splits)
  show ?thesis
    unfolding whole using I [of _ err] by (simp add: loadTimeout_def split: sum.splits)
qed

lemma loadFrom_Return:
  assumes "loadFrom v env rnd err = Return (Some cfg, e)"
  obtains ce1 ce2 ce3 k where
    "loadTimeout v env (loadDatabase v env, err) = Inr ce1"
    "loadInterval v env (loadFiles v env (fst ce1), snd ce1) = Inr ce2"
    "loadRenotifyInterval v env (loadAttempts v env (fst ce2), snd ce2) = Inr ce3"
    "\<not> IsSet v env ''clair.database.notifier.http''"
    "\<not> IsSet v env ''clair.database.options.paginationkey''"
    "Generate rnd = Inr k"
    "cfg = setOption ''paginationkey'' (Encode k) (fst ce3)"
    "e = None"
  using assms
  by (auto simp: loadFrom_def loadPaginationKey_def loadNotifierHTTP_def derefWrite_def
      split: sum.splits outcome.splits if_splits)

lemma LoadConfig_loadFrom:
  assumes "LoadConfig st path fs env rnd = (out, Some v)"
  shows "out = loadFrom v env rnd None"
    and "v = fst (openResolver st path fs)"
    and "automaticEnvApplied v" and "envPrefix v = ''clair''"
  using assms loadFrom_err [of "fst (openResolver st path fs)" env rnd "snd (openResolver st path fs)"]
  by (auto simp: LoadConfig_def Let_def openResolver_def AutomaticEnv_def SetEnvPrefix_def)

lemma HealthPort_loadDatabase:
  "HealthPort (API (loadDatabase v env)) =
     (if IsSet v env ''clair.database.api.healthaddr''
      then GetInt v env ''clair.database.api.healthport'' else 6061)"
  by (simp add: loadDatabase_def setOption_def DefaultConfig_def Let_def)

lemma HealthPort_loadTimeout:
  "loadTimeout v env ce = Inr ce' \<Longrightarrow> HealthPort (API (fst ce')) = HealthPort (API (fst ce))"
  by (auto simp: loadTimeout_def split: if_splits sum.splits)

lemma HealthPort_loadInterval:
  "loadInterval v env ce = Inr ce' \<Longrightarrow> HealthPort (API (fst ce')) = HealthPort (API (fst ce))"
  by (auto simp: loadInterval_def split: if_splits sum.splits)

lemma HealthPort_loadRenotifyInterval:
  "loadRenotifyInterval v env ce = Inr ce' \<Longrightarrow>
     HealthPort (API (fst ce')) = HealthPort (API (fst ce))"
  by (auto simp: loadRenotifyInterval_def split: if_splits sum.splits)

lemma HealthPort_others:
  "HealthPort (API (loadFiles v env c)) = HealthPort (API c)"
  "HealthPort (API (loadAttempts v env c)) = HealthPort (API c)"
  "HealthPort (API (setOption k x c)) = HealthPort (API c)"
  by (simp_all add: loadFiles_def loadAttempts_def setOption_def Let_def)

lemma fresh_resolver_find:
  "viper_find (fst (openResolver None [] fs)) env key = map_option YString (envValue env key)"
  by (simp add: openResolver_def viper_defs envValue_def Let_def)

subsection \<open>The errors of a load\<close>

lemma parseTerm_error: "parseTerm orig s = Inl e \<Longrightarrow> durationError e"
  by (auto simp: parseTerm_def Let_def split: if_splits option.splits)

lemma parseTerms_error: "parseTerms orig d s = Inl e \<Longrightarrow> durationError e"
proof (induction orig d s rule: parseTerms.induct)
  case (1 orig d s)
  have ne: "s \<noteq> []"
    using "1.prems" by (auto simp: parseTerms.simps [of orig d s])
  show ?case
  proof (cases "parseTerm orig s")
    case (Inl e')
    then have "e' = e"
      using "1.prems" ne by (simp add: parseTerms.simps [of orig d s])
    with parseTerm_error [OF Inl] show ?thesis
      by simp
  next
    case (Inr wr)
    obtain w r where wr: "wr = (w, r)"
      by (cases wr)
    have step: "parseTerm orig s = Inr (w, r)"
      using Inr wr by simp
    show ?thesis
    proof (cases "two63 < (d + w) mod 2 ^ 64")
      case True
      then have "e = ErrInvalidDuration orig"
        using "1.prems" ne step by (simp add: parseTerms.simps [of orig d s])
      then show ?thesis by simp
    next
      case False
      then have "parseTerms orig ((d + w) mod 2 ^ 64) r = Inl e"
        using "1.prems" ne step by (simp add: parseTerms.simps [of orig d s])
      with ne step False show ?thesis
        by (blast intro: "1.IH")
    qed
  qed
qed

lemma ParseDuration_error: "ParseDuration s = Inl e \<Longrightarrow> durationError e"
  by (auto simp: ParseDuration_def Let_def split: if_splits sum.splits dest: parseTerms_error)

lemma loadFrom_error:
  assumes "loadFrom v env rnd err = Return (co, Some e)"
  shows "durationError e \<or> e = ErrRandomSource"
proof -
  have stages:
    "loadTimeout v env ce = Inl x \<Longrightarrow> durationError x"
    "loadInterval v env ce = Inl x \<Longrightarrow> durationError x"
    "loadRenotifyInterval v env ce = Inl x \<Longrightarrow> durationError x" for ce x
    by (auto simp: loadTimeout_def loadInterval_def loadRenotifyInterval_def
        split: if_splits sum.splits dest: ParseDuration_error)
  have last: "loadPaginationKey v env rnd None c = Return (co, Some e) \<Longrightarrow> e = ErrRandomSource"
    for c
    by (auto simp: loadPaginationKey_def derefWrite_def Generate_def
        split: if_splits sum.splits option.splits)
  from assms show ?thesis
    by (auto simp: loadFrom_def loadNotifierHTTP_def derefWrite_def
        split: sum.splits outcome.splits if_splits dest: stages last)
qed

lemma LoadConfig_error:
  "fst (LoadConfig st path fs env rnd) = Return (co, Some e) \<Longrightarrow>
     durationError e \<or> e = ErrRandomSource"
  by (auto simp: LoadConfig_def Let_def dest: loadFrom_error)

lemma configured_key_never_loads:
  assumes "LoadConfig st path fs env rnd = (out, Some v)"
    and "IsSet v env ''clair.database.options.paginationkey''"
  shows "out = Panic \<or> (\<exists>e. out = Return (None, Some e) \<and> durationError e)"
proof -
  have stages:
    "loadTimeout v env ce = Inl x \<Longrightarrow> durationError x"
    "loadInterval v env ce = Inl x \<Longrightarrow> durationError x"
    "loadRenotifyInterval v env ce = Inl x \<Longrightarrow> durationError x" for ce x
    by (auto simp: loadTimeout_def loadInterval_def loadRenotifyInterval_def
        split: if_splits sum.splits dest: ParseDuration_error)
  have "out = loadFrom v env rnd None"
    using LoadConfig_loadFrom(1) [OF assms(1)] .
  then show ?thesis
    using assms(2)
    by (auto simp: loadFrom_def loadNotifierHTTP_def loadPaginationKey_def derefWrite_def
        split: sum.splits outcome.splits dest: stages)
qed

subsection \<open>Further facts about a load\<close>

text \<open>
  The database type of a first call that returns a Config is the environment's
  value when that is set, else the default when the variable of a parent of
  the key is set, else the file's, else the default. And a file that
  cannot be read is treated as a file without values: line 84 stores the error
  of \<^verbatim>\<open>ReadInConfig\<close> in \<^verbatim>\<open>err\<close>, nothing tests it, and a later assignment
  overwrites it.
\<close>

lemma Database_stages:
  "loadTimeout v env ce = Inr ce' \<Longrightarrow> Database (fst ce') = Database (fst ce)"
  "loadInterval v env ce = Inr ce' \<Longrightarrow> Database (fst ce') = Database (fst ce)"
  "loadRenotifyInterval v env ce = Inr ce' \<Longrightarrow> Database (fst ce') = Database (fst ce)"
  "Database (loadFiles v env c) = Database c"
  "Database (loadAttempts v env c) = Database c"
  by (auto simp: loadTimeout_def loadInterval_def loadRenotifyInterval_def loadFiles_def
      loadAttempts_def Let_def split: if_splits sum.splits)

lemma Type_loadDatabase:
  "Type (Database (loadDatabase v env)) =
     (case viper_find v env ''clair.database.type'' of
        None \<Rightarrow> ''pgsql'' | Some y \<Rightarrow> ToString y)"
  by (simp add: loadDatabase_def setOption_def DefaultConfig_def Let_def IsSet_def GetString_def
      split: option.splits)

lemma database_type_precedence:
  assumes "LoadConfig None path fs env rnd = (Return (Some cfg, e), st')"
  shows "Type (Database cfg) =
           (if env ''clair'' ''clair.database.type'' \<noteq> [] then env ''clair'' ''clair.database.type''
            else if env ''clair'' ''clair'' \<noteq> [] \<or> env ''clair'' ''clair.database'' \<noteq> []
            then ''pgsql''
            else case (if path = [] then None else fs path) of
                   None \<Rightarrow> ''pgsql''
                 | Some kv \<Rightarrow>
                     (case kv ''clair.database.type'' of
                        None \<Rightarrow> ''pgsql'' | Some y \<Rightarrow> ToString y))"
proof -
  define v where "v = fst (openResolver None path fs)"
  have st': "st' = Some v"
    using assms by (auto simp: LoadConfig_def Let_def v_def)
  have "loadFrom v env rnd None = Return (Some cfg, e)"
    using LoadConfig_loadFrom(1) [OF assms [unfolded st']] by simp
  then obtain ce1 ce2 ce3 k where
    s1: "loadTimeout v env (loadDatabase v env, None) = Inr ce1" and
    s2: "loadInterval v env (loadFiles v env (fst ce1), snd ce1) = Inr ce2" and
    s3: "loadRenotifyInterval v env (loadAttempts v env (fst ce2), snd ce2) = Inr ce3" and
    cfg: "cfg = setOption ''paginationkey'' (Encode k) (fst ce3)"
    by (rule loadFrom_Return)
  have "Type (Database cfg) = Type (Database (loadDatabase v env))"
    using Database_stages(1) [OF s1] Database_stages(2) [OF s2] Database_stages(3) [OF s3]
    by (simp add: cfg setOption_def Database_stages(4,5))
  also have "\<dots> = (case viper_find v env ''clair.database.type'' of
                      None \<Rightarrow> ''pgsql'' | Some y \<Rightarrow> ToString y)"
    by (rule Type_loadDatabase)
  also have "\<dots> = (if env ''clair'' ''clair.database.type'' \<noteq> [] then env ''clair'' ''clair.database.type''
            else if env ''clair'' ''clair'' \<noteq> [] \<or> env ''clair'' ''clair.database'' \<noteq> []
            then ''pgsql''
            else case (if path = [] then None else fs path) of
                   None \<Rightarrow> ''pgsql''
                 | Some kv \<Rightarrow>
                     (case kv ''clair.database.type'' of
                        None \<Rightarrow> ''pgsql'' | Some y \<Rightarrow> ToString y))"
    by (simp add: v_def openResolver_def viper_defs Let_def split: option.splits)
  finally show ?thesis .
qed

lemma unreadable_file_is_ignored:
  assumes "fs path = None"
  shows "LoadConfig None path fs env rnd = LoadConfig None path (fs(path \<mapsto> Map.empty)) env rnd"
proof -
  have "fst (openResolver None path fs) = fst (openResolver None path (fs(path \<mapsto> Map.empty)))"
    using assms by (simp add: openResolver_def viper_defs Let_def)
  then show ?thesis
    using loadFrom_err [of "fst (openResolver None path fs)" env rnd
        "snd (openResolver None path fs)"]
      loadFrom_err [of "fst (openResolver None path fs)" env rnd
        "snd (openResolver None path (fs(path \<mapsto> Map.empty)))"]
    by (simp add: LoadConfig_def Let_def)
qed

subsection \<open>The claims\<close>

text \<open>
  C1. The claim asks for a validation error when the configured pagination
  key is not a valid key. On the code no call ever returns that error, and a
  file that sets \<^verbatim>\<open>clair.database.options.paginationkey\<close> to
  \<^verbatim>\<open>not-a-key\<close> makes the call panic: line 168 writes through \<^verbatim>\<open>config\<close>,
  which is still nil, before line 169 checks the key.
\<close>

theorem C1_configured_key_panics:
  "(\<forall>st path fs env rnd co.
      fst (LoadConfig st path fs env rnd) \<noteq> Return (co, Some ErrInvalidPaginationKey))
   \<and> fst (LoadConfig None ''/etc/clair/config.yaml''
          (oneFile [(''clair.database.options.source'', ''host=db''),
                    (''clair.database.options.paginationkey'', ''not-a-key'')])
          noEnv zeroSource) = Panic"
proof -
  have "fst (LoadConfig st path fs env rnd) \<noteq> Return (co, Some ErrInvalidPaginationKey)"
    for st path fs env rnd co
    using LoadConfig_error [of st path fs env rnd co ErrInvalidPaginationKey] by auto
  moreover have "fst (LoadConfig None ''/etc/clair/config.yaml''
          (oneFile [(''clair.database.options.source'', ''host=db''),
                    (''clair.database.options.paginationkey'', ''not-a-key'')])
          noEnv zeroSource) = Panic"
    by (simp add: load_defs viper_defs input_defs)
  ultimately show ?thesis by blast
qed

text \<open>
  C2. The claim says that \<^verbatim>\<open>LoadConfig\<close> never panics. On the code, a file
  that sets \<^verbatim>\<open>clair.database.notifier.http\<close> makes the call panic: line 154
  writes through \<^verbatim>\<open>config\<close>, which is nil until line 175. So does a file
  that sets the pagination key, even to a valid key, on line 168.
\<close>

theorem C2_notifier_http_panics:
  "fst (LoadConfig None ''/etc/clair/config.yaml''
          (oneFile [(''clair.database.options.source'', ''host=db''),
                    (''clair.database.notifier.http'', ''http://hook.example/notify'')])
          noEnv zeroSource) = Panic
   \<and> fst (LoadConfig None ''/etc/clair/config.yaml''
          (oneFile [(''clair.database.options.source'', ''host=db''),
                    (''clair.database.options.paginationkey'',
                     ''AAAAAAAAAAAAAAAAAAAAAAAAAAAAAAAAAAAAAAAAAAA='')])
          noEnv zeroSource) = Panic"
  by (simp add: load_defs viper_defs input_defs)

text \<open>
  C3. The claim says that \<^verbatim>\<open>Notifier.Attempts\<close> is the value at the notifier
  key path. On the code, line 144 tests \<^verbatim>\<open>clair.database.notifier.attempts\<close>
  and line 145 reads \<^verbatim>\<open>clair.database.updater.attempts\<close>: a file that sets
  the notifier key to 3 loads 0 attempts, and one that also sets the updater
  key to 9 loads 9.
\<close>

theorem C3_attempts_read_from_updater_path:
  "map_option (\<lambda>c. Attempts (Notifier c))
     (loaded (LoadConfig None ''/etc/clair/config.yaml''
        (oneFile [(''clair.database.options.source'', ''host=db''),
                  (''clair.database.notifier.attempts'', ''3'')])
        noEnv zeroSource)) = Some 0
   \<and> map_option (\<lambda>c. Attempts (Notifier c))
     (loaded (LoadConfig None ''/etc/clair/config.yaml''
        (oneFile [(''clair.database.options.source'', ''host=db''),
                  (''clair.database.notifier.attempts'', ''3''),
                  (''clair.database.updater.attempts'', ''9'')])
        noEnv zeroSource)) = Some 9"
  by (simp add: load_defs viper_defs input_defs key_defs number_defs)

text \<open>
  C4. As stated the claim fails. A load that succeeds returns more than the
  defaults overlaid by the environment: the pagination key that it generated
  is among the options. And the load for the empty path does fail when the
  random source delivers no key.
\<close>

theorem C4_empty_path_counterexample:
  "overlayEnvironment (envWith [(''clair.database.options.source'', ''host=db'')]) DefaultConfig
     = Some (DefaultConfig
               \<lparr> Database := \<lparr> Type = ''pgsql'', Options = [''source'' \<mapsto> ''host=db''] \<rparr> \<rparr>)
   \<and> loaded (LoadConfig None [] noFiles
               (envWith [(''clair.database.options.source'', ''host=db'')]) zeroSource)
       = Some (DefaultConfig
                 \<lparr> Database := \<lparr> Type = ''pgsql'',
                                 Options = [''source'' \<mapsto> ''host=db'',
                                            ''paginationkey'' \<mapsto>
                                    ''AAAAAAAAAAAAAAAAAAAAAAAAAAAAAAAAAAAAAAAAAAA=''] \<rparr> \<rparr>)
   \<and> loaded (LoadConfig None [] noFiles
               (envWith [(''clair.database.options.source'', ''host=db'')]) zeroSource)
       \<noteq> overlayEnvironment
           (envWith [(''clair.database.options.source'', ''host=db'')]) DefaultConfig
   \<and> fst (LoadConfig None [] noFiles
            (envWith [(''clair.database.options.source'', ''host=db'')]) None)
       = Return (None, Some ErrRandomSource)"
proof -
  let ?env = "envWith [(''clair.database.options.source'', ''host=db'')]"
  have overlay: "overlayEnvironment ?env DefaultConfig
     = Some (DefaultConfig
               \<lparr> Database := \<lparr> Type = ''pgsql'', Options = [''source'' \<mapsto> ''host=db''] \<rparr> \<rparr>)"
    by (simp add: overlay_defs envWith_def DefaultConfig_def)
  have load: "loaded (LoadConfig None [] noFiles ?env zeroSource)
       = Some (DefaultConfig
                 \<lparr> Database := \<lparr> Type = ''pgsql'',
                                 Options = [''source'' \<mapsto> ''host=db'',
                                            ''paginationkey'' \<mapsto>
                                    ''AAAAAAAAAAAAAAAAAAAAAAAAAAAAAAAAAAAAAAAAAAA=''] \<rparr> \<rparr>)"
    by (simp add: load_defs viper_defs input_defs key_defs DefaultConfig_def upt_rec)
  have differ: "loaded (LoadConfig None [] noFiles ?env zeroSource)
                  \<noteq> overlayEnvironment ?env DefaultConfig"
  proof
    assume "loaded (LoadConfig None [] noFiles ?env zeroSource)
              = overlayEnvironment ?env DefaultConfig"
    then have "Options (Database (the (loaded (LoadConfig None [] noFiles ?env zeroSource))))
                 ''paginationkey''
               = Options (Database (the (overlayEnvironment ?env DefaultConfig)))
                   ''paginationkey''"
      by simp
    then show False
      unfolding overlay load by simp
  qed
  have random: "fst (LoadConfig None [] noFiles ?env None)
       = Return (None, Some ErrRandomSource)"
    by (simp add: load_defs viper_defs input_defs key_defs DefaultConfig_def)
  from overlay load differ random show ?thesis by blast
qed

text \<open>
  C4, amended. For the empty path on a fresh process: when the environment
  sets the database source and, besides it, at most the database type and the
  cache size, and the random source delivers a key, \<^verbatim>\<open>LoadConfig\<close> returns a
  nil error and the Config that is \<open>DefaultConfig\<close> overlaid by the
  environment, with the generated pagination key added to its options. The
  file system plays no part, and the file that is absent causes no failure.
\<close>

theorem C4_empty_path_loads_defaults_and_environment:
  assumes source: "env ''clair'' ''clair.database.options.source'' \<noteq> []"
    and only: "\<forall>k. k \<notin> {''clair.database.type'', ''clair.database.options.source'',
                         ''clair.database.options.cachesize''} \<longrightarrow> env ''clair'' k = []"
    and gen: "Generate rnd = Inr key"
  shows "\<exists>c. overlayEnvironment env DefaultConfig = Some c \<and>
             fst (LoadConfig None [] fs env rnd) =
               Return (Some (c\<lparr> Database := (Database c)\<lparr> Options :=
                         (Options (Database c))(''paginationkey'' \<mapsto> Encode key) \<rparr> \<rparr>), None)"
proof -
  define v where "v = fst (openResolver None [] fs)"
  have find: "viper_find v env k = map_option YString (envValue env k)" for k
    unfolding v_def by (rule fresh_resolver_find)
  have isset: "IsSet v env k = (env ''clair'' k \<noteq> [])" for k
    by (simp add: IsSet_def find envValue_def)
  have getstring: "GetString v env k = env ''clair'' k" for k
    by (simp add: GetString_def find envValue_def)
  have unset: "env ''clair'' k = []"
    if "k \<notin> {''clair.database.type'', ''clair.database.options.source'',
               ''clair.database.options.cachesize''}" for k
    using only that by blast
  have code_keys:
    "env ''clair'' ''clair.database.options.paginationkey'' = []"
    "env ''clair'' ''clair.database.api.healthaddr'' = []"
    "env ''clair'' ''clair.database.api.timeout'' = []"
    "env ''clair'' ''clair.database.api.cafile'' = []"
    "env ''clair'' ''clair.database.api.keyfile'' = []"
    "env ''clair'' ''clair.database.api.certfile'' = []"
    "env ''clair'' ''clair.database.updater.interval'' = []"
    "env ''clair'' ''clair.database.notifier.attempts'' = []"
    "env ''clair'' ''clair.database.notifier.renotifyinterval'' = []"
    "env ''clair'' ''clair.database.notifier.http'' = []"
    by (rule unset, simp)+
  have spec_keys:
    "env ''clair'' ''clair.api.timeout'' = []"
    "env ''clair'' ''clair.updater.interval'' = []"
    "env ''clair'' ''clair.notifier.renotifyinterval'' = []"
    "env ''clair'' ''clair.api.healthport'' = []"
    "env ''clair'' ''clair.notifier.attempts'' = []"
    "env ''clair'' ''clair.api.cafile'' = []"
    "env ''clair'' ''clair.api.keyfile'' = []"
    "env ''clair'' ''clair.api.certfile'' = []"
    by (rule unset, simp)+
  define c where
    "c = DefaultConfig\<lparr> Database :=
            \<lparr> Type = overString env ''clair.database.type'' ''pgsql'',
              Options =
                overOption env ''clair.database.options.cachesize'' ''cachesize''
                  (overOption env ''clair.database.options.source'' ''source'' Map.empty) \<rparr> \<rparr>"
  have overlay: "overlayEnvironment env DefaultConfig = Some c"
    by (simp add: overlayEnvironment_def overDuration_def overInt_def envValue_def spec_keys
        code_keys c_def DefaultConfig_def overString_def overOption_def)
  have s0: "loadDatabase v env = c"
    by (simp add: loadDatabase_def Let_def isset getstring code_keys setOption_def c_def
        overString_def overOption_def envValue_def DefaultConfig_def)
  have s1: "loadTimeout v env (c, None) = Inr (c, None)"
    by (simp add: loadTimeout_def isset code_keys)
  have s2: "loadFiles v env c = c"
    by (simp add: loadFiles_def Let_def isset code_keys)
  have s3: "loadInterval v env (c, None) = Inr (c, None)"
    by (simp add: loadInterval_def isset code_keys)
  have s4: "loadAttempts v env c = c"
    by (simp add: loadAttempts_def isset code_keys)
  have s5: "loadRenotifyInterval v env (c, None) = Inr (c, None)"
    by (simp add: loadRenotifyInterval_def isset code_keys)
  have s6: "loadNotifierHTTP v env None = Return ()"
    by (simp add: loadNotifierHTTP_def isset code_keys)
  have s7: "loadPaginationKey v env rnd None c =
              Return (Some (setOption ''paginationkey'' (Encode key) c), None)"
    by (simp add: loadPaginationKey_def isset code_keys gen)
  have "loadFrom v env rnd None =
          Return (Some (setOption ''paginationkey'' (Encode key) c), None)"
    by (simp add: loadFrom_def s0 s1 s2 s3 s4 s5 s6 s7)
  then have "fst (LoadConfig None [] fs env rnd) =
               Return (Some (c\<lparr> Database := (Database c)\<lparr> Options :=
                         (Options (Database c))(''paginationkey'' \<mapsto> Encode key) \<rparr> \<rparr>), None)"
    using loadFrom_err [of v env rnd "snd (openResolver None [] fs)"]
    by (simp add: LoadConfig_def Let_def v_def setOption_def)
  with overlay show ?thesis by blast
qed

theorem C4_empty_path_loads_defaults_and_environment_witness:
  "fst (LoadConfig None [] (oneFile [(''clair.database.type'', ''sqlite'')])
          (envWith [(''clair.database.type'', ''mysql''),
                    (''clair.database.options.source'', ''host=db'')]) zeroSource)
     = Return (Some (DefaultConfig
                 \<lparr> Database := \<lparr> Type = ''mysql'',
                                 Options = [''source'' \<mapsto> ''host=db'',
                                            ''paginationkey'' \<mapsto>
                                    ''AAAAAAAAAAAAAAAAAAAAAAAAAAAAAAAAAAAAAAAAAAA=''] \<rparr> \<rparr>), None)"
proof -
  let ?env = "envWith [(''clair.database.type'', ''mysql''),
                       (''clair.database.options.source'', ''host=db'')]"
  have source: "?env ''clair'' ''clair.database.options.source'' \<noteq> []"
    by (simp add: envWith_def)
  have only: "\<forall>k. k \<notin> {''clair.database.type'', ''clair.database.options.source'',
                         ''clair.database.options.cachesize''} \<longrightarrow> ?env ''clair'' k = []"
    by (simp add: envWith_def)
  have overlay: "overlayEnvironment ?env DefaultConfig =
      Some (DefaultConfig
             \<lparr> Database := \<lparr> Type = ''mysql'', Options = [''source'' \<mapsto> ''host=db''] \<rparr> \<rparr>)"
    by (simp add: overlay_defs envWith_def DefaultConfig_def)
  have gen: "Generate zeroSource = Inr (map (\<lambda>i. 0) [0..<keyLen])"
    by (simp add: Generate_def zeroSource_def)
  have enc: "Encode (map (\<lambda>i. 0) [0..<keyLen])
               = ''AAAAAAAAAAAAAAAAAAAAAAAAAAAAAAAAAAAAAAAAAAA=''"
    by (simp add: Encode_def encodeURL_def keyLen_def upt_rec)
  from C4_empty_path_loads_defaults_and_environment
         [where env = "?env" and fs = "oneFile [(''clair.database.type'', ''sqlite'')]",
          OF source only gen]
  obtain c where
    c: "overlayEnvironment ?env DefaultConfig = Some c" and
    run: "fst (LoadConfig None [] (oneFile [(''clair.database.type'', ''sqlite'')]) ?env zeroSource) =
            Return (Some (c\<lparr> Database := (Database c)\<lparr> Options :=
              (Options (Database c))(''paginationkey'' \<mapsto>
                 Encode (map (\<lambda>i. 0) [0..<keyLen])) \<rparr> \<rparr>), None)"
    by blast
  from c have "c = DefaultConfig
             \<lparr> Database := \<lparr> Type = ''mysql'', Options = [''source'' \<mapsto> ''host=db''] \<rparr> \<rparr>"
    by (simp add: overlay)
  with run show ?thesis
    by (simp add: enc DefaultConfig_def)
qed

text \<open>
  C5. The claim asks that a duration or an integer that does not parse abort
  the load, with no default standing in. In a file of the specification's
  format, with \<^verbatim>\<open>updater\<close> and \<^verbatim>\<open>api\<close> beside \<^verbatim>\<open>database\<close>, the
  updater interval \<^verbatim>\<open>5 bananas\<close> loads with a nil error and the default
  interval of one hour, and the health port \<^verbatim>\<open>abc\<close> with the default port:
  \<^verbatim>\<open>LoadConfig\<close> looks both up below \<^verbatim>\<open>clair.database\<close>, where the file
  holds nothing. The same text for the interval under the path that
  \<^verbatim>\<open>LoadConfig\<close> reads does abort the load, with the error of the duration
  parser.
\<close>

theorem C5_unparseable_interval_loads_default:
  "map_option (\<lambda>c. Interval (Updater c))
     (loaded (LoadConfig None ''/etc/clair/config.yaml''
        (oneFile [(''clair.database.options.source'', ''host=db''),
                  (''clair.updater.interval'', ''5 bananas'')])
        noEnv zeroSource)) = Some (1 * Hour)
   \<and> map_option (\<lambda>c. HealthPort (API c))
       (loaded (LoadConfig None ''/etc/clair/config.yaml''
          (oneFile [(''clair.database.options.source'', ''host=db''),
                    (''clair.api.healthport'', ''abc'')])
          noEnv zeroSource)) = Some 6061
   \<and> fst (LoadConfig None ''/etc/clair/config.yaml''
            (oneFile [(''clair.database.options.source'', ''host=db''),
                      (''clair.database.updater.interval'', ''5 bananas'')])
            noEnv zeroSource)
       = Return (None, Some (ErrUnknownUnit '' bananas'' ''5 bananas''))"
proof -
  have "map_option (\<lambda>c. Interval (Updater c))
     (loaded (LoadConfig None ''/etc/clair/config.yaml''
        (oneFile [(''clair.database.options.source'', ''host=db''),
                  (''clair.updater.interval'', ''5 bananas'')])
        noEnv zeroSource)) = Some (1 * Hour)"
    by (simp add: load_defs viper_defs input_defs key_defs DefaultConfig_def)
  moreover have "map_option (\<lambda>c. HealthPort (API c))
       (loaded (LoadConfig None ''/etc/clair/config.yaml''
          (oneFile [(''clair.database.options.source'', ''host=db''),
                    (''clair.api.healthport'', ''abc'')])
          noEnv zeroSource)) = Some 6061"
    by (simp add: load_defs viper_defs input_defs key_defs DefaultConfig_def)
  moreover have "fst (LoadConfig None ''/etc/clair/config.yaml''
            (oneFile [(''clair.database.options.source'', ''host=db''),
                      (''clair.database.updater.interval'', ''5 bananas'')])
            noEnv zeroSource)
       = Return (None, Some (ErrUnknownUnit '' bananas'' ''5 bananas''))"
    by (simp add: load_defs viper_defs input_defs number_defs)
  ultimately show ?thesis by simp
qed

text \<open>
  C6. The claim asks for the sentinel \<open>ErrDatasourceNotLoaded\<close> when no
  database source is configured. On the code no call ever returns the
  sentinel, and a load with no file and an empty environment returns a Config
  and a nil error: lines 98 to 100 only copy the source when it is set.
\<close>

theorem C6_missing_source_is_accepted:
  "(\<forall>st path fs env rnd co.
      fst (LoadConfig st path fs env rnd) \<noteq> Return (co, Some ErrDatasourceNotLoaded))
   \<and> fst (LoadConfig None [] noFiles noEnv zeroSource) =
     Return (Some (DefaultConfig\<lparr> Database :=
                     \<lparr> Type = ''pgsql'',
                       Options = [''paginationkey'' \<mapsto>
                                    ''AAAAAAAAAAAAAAAAAAAAAAAAAAAAAAAAAAAAAAAAAAA=''] \<rparr> \<rparr>),
             None)"
proof -
  have "fst (LoadConfig st path fs env rnd) \<noteq> Return (co, Some ErrDatasourceNotLoaded)"
    for st path fs env rnd co
    using LoadConfig_error [of st path fs env rnd co ErrDatasourceNotLoaded] by auto
  moreover have "fst (LoadConfig None [] noFiles noEnv zeroSource) =
     Return (Some (DefaultConfig\<lparr> Database :=
                     \<lparr> Type = ''pgsql'',
                       Options = [''paginationkey'' \<mapsto>
                                    ''AAAAAAAAAAAAAAAAAAAAAAAAAAAAAAAAAAAAAAAAAAA=''] \<rparr> \<rparr>),
             None)"
    by (simp add: load_defs viper_defs input_defs key_defs DefaultConfig_def upt_rec)
  ultimately show ?thesis by blast
qed


text \<open>
  C8. Whenever \<^verbatim>\<open>LoadConfig\<close> returns a nil error, it returns a Config whose
  \<^verbatim>\<open>Database.Options["paginationkey"]\<close> is present, and that text decodes as
  URL-safe base64 to a key of the required 32 bytes.
\<close>

theorem C8_pagination_key_present_and_valid:
  assumes "LoadConfig st path fs env rnd = (Return (co, None), st')"
  shows "\<exists>cfg s k. co = Some cfg \<and> Options (Database cfg) ''paginationkey'' = Some s \<and>
           DecodeString encodeURL s = Some k \<and> length k = keyLen"
proof -
  define v where "v = fst (openResolver st path fs)"
  have run: "loadFrom v env rnd None = Return (co, None)"
    using assms loadFrom_err [of v env rnd "snd (openResolver st path fs)"]
    by (simp add: LoadConfig_def Let_def v_def)
  have "co \<noteq> None"
    using run
    by (auto simp: loadFrom_def loadPaginationKey_def loadNotifierHTTP_def derefWrite_def
        split: sum.splits outcome.splits if_splits)
  then obtain cfg where co: "co = Some cfg"
    by auto
  from run obtain ce3 :: "Config \<times> error option" and k where k: "Generate rnd = Inr k"
    and cfg: "cfg = setOption ''paginationkey'' (Encode k) (fst ce3)"
    unfolding co by (auto elim: loadFrom_Return)
  have "Options (Database cfg) ''paginationkey'' = Some (Encode k)"
    by (simp add: cfg setOption_def)
  moreover have "DecodeString encodeURL (Encode k) = Some k"
    by (rule DecodeString_Encode)
  moreover have "length k = keyLen"
    using k by (rule Generate_length)
  ultimately show ?thesis
    using co by blast
qed

theorem C8_pagination_key_present_and_valid_witness:
  "fst (LoadConfig None ''/etc/clair/config.yaml''
          (oneFile [(''clair.database.options.source'', ''host=db'')]) noEnv zeroSource)
     = Return (loaded (LoadConfig None ''/etc/clair/config.yaml''
          (oneFile [(''clair.database.options.source'', ''host=db'')]) noEnv zeroSource), None)
   \<and> (\<exists>cfg s k. loaded (LoadConfig None ''/etc/clair/config.yaml''
          (oneFile [(''clair.database.options.source'', ''host=db'')]) noEnv zeroSource) = Some cfg
        \<and> Options (Database cfg) ''paginationkey'' = Some s
        \<and> DecodeString encodeURL s = Some k \<and> length k = keyLen)"
proof -
  let ?r = "LoadConfig None ''/etc/clair/config.yaml''
          (oneFile [(''clair.database.options.source'', ''host=db'')]) noEnv zeroSource"
  have run: "?r = (Return (loaded ?r, None), snd ?r)"
    by (simp add: load_defs viper_defs input_defs key_defs)
  from C8_pagination_key_present_and_valid [OF run] run show ?thesis
    by (metis fst_conv)
qed

text \<open>
  C9. After a first call that succeeded, a second call in the same process
  does what a first call with the first path and the first file contents
  would do under the second call's environment and random source: the second
  path and whatever file is there are never read.
\<close>

theorem C9_first_path_wins:
  assumes "LoadConfig None path1 fs1 env1 rnd1 = (Return (Some cfg1, None), st1)"
  shows "LoadConfig st1 path2 fs2 env2 rnd2 = LoadConfig None path1 fs1 env2 rnd2"
proof -
  define v where "v = fst (openResolver None path1 fs1)"
  have st1: "st1 = Some v"
    using assms by (auto simp: LoadConfig_def Let_def v_def)
  have again: "openResolver (Some v) path2 fs2 = (v, None)"
    by (simp add: v_def openResolver_def AutomaticEnv_def SetEnvPrefix_def Let_def)
  have "LoadConfig st1 path2 fs2 env2 rnd2 = (loadFrom v env2 rnd2 None, Some v)"
    by (simp add: LoadConfig_def st1 again)
  also have "\<dots> = LoadConfig None path1 fs1 env2 rnd2"
    using loadFrom_err [of v env2 rnd2 "snd (openResolver None path1 fs1)"]
    by (simp add: LoadConfig_def Let_def v_def)
  finally show ?thesis .
qed

theorem C9_first_path_wins_witness:
  "loaded (LoadConfig None ''/etc/clair/config.yaml''
             (oneFile [(''clair.database.type'', ''mysql'')]) noEnv zeroSource) \<noteq> None
   \<and> map_option (\<lambda>c. Type (Database c))
        (loaded (LoadConfig
           (snd (LoadConfig None ''/etc/clair/config.yaml''
                   (oneFile [(''clair.database.type'', ''mysql'')]) noEnv zeroSource))
           ''/srv/other.yaml'' (\<lambda>p. Some [''clair.database.type'' \<mapsto> YString ''sqlite''])
           noEnv zeroSource)) = Some ''mysql''"
proof -
  let ?first = "LoadConfig None ''/etc/clair/config.yaml''
                  (oneFile [(''clair.database.type'', ''mysql'')]) noEnv zeroSource"
  have run: "?first = (Return (Some (the (loaded ?first)), None), snd ?first)"
    by (simp add: load_defs viper_defs input_defs key_defs)
  have ok: "loaded ?first \<noteq> None"
    by (simp add: load_defs viper_defs input_defs key_defs)
  have "map_option (\<lambda>c. Type (Database c)) (loaded ?first) = Some ''mysql''"
    by (simp add: load_defs viper_defs input_defs key_defs)
  with C9_first_path_wins [OF run, of "''/srv/other.yaml''"
      "\<lambda>p. Some [''clair.database.type'' \<mapsto> YString ''sqlite'']" noEnv zeroSource] ok
  show ?thesis by simp
qed

text \<open>
  C10. Whenever the key \<^verbatim>\<open>clair.database.api.healthaddr\<close> is not set, a load
  that returns a Config returns it with the default health port 6061, whatever
  \<^verbatim>\<open>clair.database.api.healthport\<close> holds: line 110 tests one key and line
  111 reads the other.
\<close>

theorem C10_health_port_stays_default:
  assumes "LoadConfig st path fs env rnd = (Return (Some cfg, e), Some v)"
    and "\<not> IsSet v env ''clair.database.api.healthaddr''"
  shows "HealthPort (API cfg) = 6061"
proof -
  have "loadFrom v env rnd None = Return (Some cfg, e)"
    using LoadConfig_loadFrom(1) [OF assms(1)] by simp
  then obtain ce1 ce2 ce3 k where
    s1: "loadTimeout v env (loadDatabase v env, None) = Inr ce1" and
    s2: "loadInterval v env (loadFiles v env (fst ce1), snd ce1) = Inr ce2" and
    s3: "loadRenotifyInterval v env (loadAttempts v env (fst ce2), snd ce2) = Inr ce3" and
    cfg: "cfg = setOption ''paginationkey'' (Encode k) (fst ce3)"
    by (rule loadFrom_Return)
  have "HealthPort (API cfg) = HealthPort (API (loadDatabase v env))"
    using HealthPort_loadTimeout [OF s1] HealthPort_loadInterval [OF s2]
      HealthPort_loadRenotifyInterval [OF s3]
    by (simp add: cfg HealthPort_others)
  then show ?thesis
    using assms(2) by (simp add: HealthPort_loadDatabase)
qed

theorem C10_health_port_stays_default_witness:
  "snd (LoadConfig None ''/etc/clair/config.yaml''
          (oneFile [(''clair.database.options.source'', ''host=db''),
                    (''clair.database.api.healthport'', ''7000'')]) noEnv zeroSource) \<noteq> None
   \<and> GetString (the (snd (LoadConfig None ''/etc/clair/config.yaml''
          (oneFile [(''clair.database.options.source'', ''host=db''),
                    (''clair.database.api.healthport'', ''7000'')]) noEnv zeroSource)))
        noEnv ''clair.database.api.healthport'' = ''7000''
   \<and> map_option (\<lambda>c. HealthPort (API c))
        (loaded (LoadConfig None ''/etc/clair/config.yaml''
          (oneFile [(''clair.database.options.source'', ''host=db''),
                    (''clair.database.api.healthport'', ''7000'')]) noEnv zeroSource)) = Some 6061"
proof -
  let ?r = "LoadConfig None ''/etc/clair/config.yaml''
          (oneFile [(''clair.database.options.source'', ''host=db''),
                    (''clair.database.api.healthport'', ''7000'')]) noEnv zeroSource"
  have run: "?r = (Return (Some (the (loaded ?r)), None), Some (the (snd ?r)))"
    by (simp add: load_defs viper_defs input_defs key_defs)
  have unset: "\<not> IsSet (the (snd ?r)) noEnv ''clair.database.api.healthaddr''"
    by (simp add: load_defs viper_defs input_defs)
  have port: "GetString (the (snd ?r)) noEnv ''clair.database.api.healthport'' = ''7000''"
    by (simp add: load_defs viper_defs input_defs)
  have some: "loaded ?r \<noteq> None" "snd ?r \<noteq> None"
    by (simp_all add: load_defs viper_defs input_defs key_defs)
  from C10_health_port_stays_default [OF run unset] some port show ?thesis
    by auto
qed

end
